theory Spec2Isabelle
  imports Main "HOL-Library.AList"
begin

section \<open>Python values and exceptions\<close>

text \<open>
  The functions of \<^verbatim>\<open>graphene_django_cud/util.py\<close> are dynamically typed, and several of
  them branch on the run-time type of their argument (\<^verbatim>\<open>isinstance\<close>, \<^verbatim>\<open>hasattr\<close>, the
  exception class raised by \<^verbatim>\<open>int\<close>). The values they can receive are modelled by one
  datatype. A \<^verbatim>\<open>dict\<close> is an association list in insertion order (its keys are distinct in
  Python). A \<^verbatim>\<open>str\<close> is the list of its code points; \<open>ord\<close> is the code point of an ASCII
  character and \<open>ascii\<close> turns an ASCII text into a \<^verbatim>\<open>str\<close>.

  A \<^verbatim>\<open>float\<close> is either \<open>m * 2 ^ e\<close> for integers \<open>m\<close> and \<open>e\<close> (every finite double has
  this form), an infinity (\<open>Infinity True\<close> the negative one) or a NaN. Only its conversion
  by \<^verbatim>\<open>int\<close> is used.
\<close>

type_synonym pystr = "nat list"

definition ord :: "char \<Rightarrow> nat" where
  "ord c = of_char c"

definition ascii :: "string \<Rightarrow> pystr" where
  "ascii s = map ord s"

datatype pyfloat = Finite int int | Infinity bool | NaN

datatype pyval =
    PNone
  | PBool bool
  | PInt int
  | PFloat pyfloat
  | PStr pystr
  | PList "pyval list"
  | PDict "(pyval \<times> pyval) list"

text \<open>
  An exception is its class and its message. Where the message is built by the
  interpreter and not by this module, only its fixed part is kept (the code never reads
  it); the messages this module formats itself are modelled in full.
\<close>

datatype py_error =
    ValueError string
  | TypeError string
  | OverflowError string
  | KeyError string
  | AttributeError string
  | GraphQLError string

fun is_ValueError :: "py_error \<Rightarrow> bool" where
  "is_ValueError (ValueError _) = True"
| "is_ValueError _ = False"

subsection \<open>The builtin \<^verbatim>\<open>int\<close>\<close>

text \<open>
  What \<^verbatim>\<open>int\<close> does with a string depends on three things that belong to the interpreter
  and not to this module: which code points from 127 on are whitespace
  (\<^verbatim>\<open>Py_UNICODE_ISSPACE\<close>), which of them are decimal digits and of what value
  (\<^verbatim>\<open>Py_UNICODE_TODECIMAL\<close>, a table of the Unicode version the interpreter was built
  with), and the limit on the number of digits (\<^verbatim>\<open>sys.get_int_max_str_digits()\<close>, where 0
  means no limit). They are a parameter of \<^verbatim>\<open>int\<close> and of everything that calls it.
\<close>

datatype interpreter =
  Interpreter (unicode_space: "nat \<Rightarrow> bool") (unicode_decimal: "nat \<Rightarrow> nat option")
    (max_str_digits: nat)

text \<open>
  A string with a code point outside ASCII is first rewritten: a code point below 127 is
  kept, a Unicode space becomes a blank, a Unicode decimal digit becomes the ASCII digit
  of its value, and anything else becomes a question mark, at which the text is cut.
\<close>

fun transform_loop :: "interpreter \<Rightarrow> pystr \<Rightarrow> pystr" where
  "transform_loop interp [] = []"
| "transform_loop interp (ch # rest) =
     (if ch < 127 then ch # transform_loop interp rest
      else if unicode_space interp ch then ord CHR '' '' # transform_loop interp rest
      else (case unicode_decimal interp ch of
              None \<Rightarrow> [ord CHR ''?'']
            | Some d \<Rightarrow> (ord CHR ''0'' + d) # transform_loop interp rest))"

definition transform_decimal_and_space :: "interpreter \<Rightarrow> pystr \<Rightarrow> pystr" where
  "transform_decimal_and_space interp s =
     (if list_all (\<lambda>ch. ch < 128) s then s else transform_loop interp s)"

text \<open>
  The rewritten text is then read from the left: ASCII whitespace, an optional sign, and
  a run of digits in which single underscores may stand between digits.
  \<open>scan_digits cs acc digits after_underscore\<close> reads that run: \<open>acc\<close> is the value so far,
  \<open>digits\<close> the number of digits so far, and the result also holds the part of the text
  that the run does not cover. An underscore after an underscore or at the end of the
  run is an error.
\<close>

definition is_ascii_space :: "nat \<Rightarrow> bool" where
  "is_ascii_space c = (c = ord CHR '' '' \<or> (9 \<le> c \<and> c \<le> 13))"

definition digit_of :: "nat \<Rightarrow> int option" where
  "digit_of c =
     (if ord CHR ''0'' \<le> c \<and> c \<le> ord CHR ''9'' then Some (int c - int (ord CHR ''0''))
      else None)"

fun scan_digits :: "pystr \<Rightarrow> int \<Rightarrow> nat \<Rightarrow> bool \<Rightarrow> (int \<times> nat \<times> pystr) option" where
  "scan_digits [] acc digits after_underscore =
     (if after_underscore then None else Some (acc, digits, []))"
| "scan_digits (c # cs) acc digits after_underscore =
     (case digit_of c of
        Some d \<Rightarrow> scan_digits cs (acc * 10 + d) (Suc digits) False
      | None \<Rightarrow>
          if c = ord CHR ''_''
          then (if after_underscore then None else scan_digits cs acc digits True)
          else (if after_underscore then None else Some (acc, digits, c # cs)))"

definition invalid_literal :: py_error where
  "invalid_literal = ValueError ''invalid literal for int() with base 10''"

definition str_digits_check_threshold :: nat where
  "str_digits_check_threshold = 640"

text \<open>
  \<^verbatim>\<open>int(s)\<close> for a string, in the order in which CPython 3.11 makes its checks: a leading
  underscore, the underscores inside the run, the limit on the number of digits, a run
  without digits, and what follows the run, which may only be ASCII whitespace. Every
  failure is a \<^verbatim>\<open>ValueError\<close>.
\<close>

definition int_of_str :: "interpreter \<Rightarrow> pystr \<Rightarrow> py_error + int" where
  "int_of_str interp s =
     (let str = dropWhile is_ascii_space (transform_decimal_and_space interp s);
          negative = (take 1 str = [ord CHR ''-'']);
          str = (if take 1 str = [ord CHR ''+''] \<or> take 1 str = [ord CHR ''-'']
                 then drop 1 str else str)
      in if take 1 str = [ord CHR ''_''] then Inl invalid_literal
         else
           (case scan_digits str 0 0 False of
              None \<Rightarrow> Inl invalid_literal
            | Some (n, digits, rest) \<Rightarrow>
                if str_digits_check_threshold < digits \<and> 0 < max_str_digits interp \<and>
                   max_str_digits interp < digits
                then Inl (ValueError ''Exceeds the limit for integer string conversion'')
                else if digits = 0 then Inl invalid_literal
                else if dropWhile is_ascii_space rest = [] then Inr (if negative then - n else n)
                else Inl invalid_literal))"

text \<open>\<^verbatim>\<open>int(x)\<close> on a float truncates towards zero.\<close>

definition trunc_float :: "int \<Rightarrow> int \<Rightarrow> int" where
  "trunc_float m e =
     (if 0 \<le> e then m * 2 ^ nat e
      else if 0 \<le> m then m div 2 ^ nat (- e)
      else - ((- m) div 2 ^ nat (- e)))"

fun py_int :: "interpreter \<Rightarrow> pyval \<Rightarrow> py_error + int" where
  "py_int interp (PInt n) = Inr n"
| "py_int interp (PBool b) = Inr (if b then 1 else 0)"
| "py_int interp (PFloat (Finite m e)) = Inr (trunc_float m e)"
| "py_int interp (PFloat (Infinity _)) =
     Inl (OverflowError ''cannot convert float infinity to integer'')"
| "py_int interp (PFloat NaN) = Inl (ValueError ''cannot convert float NaN to integer'')"
| "py_int interp (PStr s) = int_of_str interp s"
| "py_int interp _ =
     Inl (TypeError ''int() argument must be a string, a bytes-like object or a real number'')"

subsection \<open>Iteration\<close>

text \<open>
  \<^verbatim>\<open>hasattr(x, "__iter__")\<close> holds for strings, lists and dicts, and for none of the
  scalars. Iterating a string yields its characters as one-character strings; iterating a
  dict yields its keys.
\<close>

fun has_iter :: "pyval \<Rightarrow> bool" where
  "has_iter (PStr _) = True"
| "has_iter (PList _) = True"
| "has_iter (PDict _) = True"
| "has_iter _ = False"

fun py_iter :: "pyval \<Rightarrow> pyval list" where
  "py_iter (PStr s) = map (\<lambda>c. PStr [c]) s"
| "py_iter (PList xs) = xs"
| "py_iter (PDict kvs) = map fst kvs"
| "py_iter _ = []"

section \<open>Identifier disambiguation\<close>

text \<open>
  Modelled from the spec: \<^verbatim>\<open>from_global_id\<close> of the \<^verbatim>\<open>graphql_relay\<close> package, the global-id
  codec, which "given an encoded token, returns (type-name, local-id) or fails if
  malformed". It is a parameter of the functions that call it.
\<close>

type_synonym global_id_codec = "pyval \<Rightarrow> py_error + (pyval \<times> pyval)"

text \<open>
  \<^verbatim>\<open>disambiguate_id\<close>. The \<^verbatim>\<open>try\<close> body returns \<^verbatim>\<open>int(ambiguous_id)\<close>; the handler catches
  \<^verbatim>\<open>ValueError\<close> only and assigns the decoded local id; the \<^verbatim>\<open>finally\<close> clause runs on
  every path and itself returns \<^verbatim>\<open>final_id\<close>, which discards an exception that is still
  pending (one that \<^verbatim>\<open>int\<close> raised and the handler did not catch, or one raised inside the
  handler). So the variable \<^verbatim>\<open>final_id\<close>, initially \<open>-1\<close>, is what every path returns.
\<close>

definition disambiguate_id ::
  "interpreter \<Rightarrow> global_id_codec \<Rightarrow> pyval \<Rightarrow> py_error + pyval" where
  "disambiguate_id interp from_global_id ambiguous_id =
     (let final_id = PInt (- 1);
          final_id =
            (case py_int interp ambiguous_id of
               Inr n \<Rightarrow> PInt n
             | Inl e \<Rightarrow>
                 if is_ValueError e
                 then (case from_global_id ambiguous_id of
                         Inr (_, local_id) \<Rightarrow> local_id
                       | Inl _ \<Rightarrow> final_id)
                 else final_id)
      in Inr final_id)"

text \<open>The list comprehension of \<^verbatim>\<open>disambiguate_ids\<close>: the first exception ends it.\<close>

fun disambiguate_each ::
  "interpreter \<Rightarrow> global_id_codec \<Rightarrow> pyval list \<Rightarrow> py_error + pyval list" where
  "disambiguate_each interp from_global_id [] = Inr []"
| "disambiguate_each interp from_global_id (x # xs) =
     (case disambiguate_id interp from_global_id x of
        Inl e \<Rightarrow> Inl e
      | Inr y \<Rightarrow>
          (case disambiguate_each interp from_global_id xs of
             Inl e \<Rightarrow> Inl e
           | Inr ys \<Rightarrow> Inr (y # ys)))"

definition disambiguate_ids ::
  "interpreter \<Rightarrow> global_id_codec \<Rightarrow> pyval \<Rightarrow> py_error + pyval list" where
  "disambiguate_ids interp from_global_id ids =
     (if \<not> has_iter ids
      then (case disambiguate_id interp from_global_id ids of
              Inl e \<Rightarrow> Inl e
            | Inr y \<Rightarrow> Inr [y])
      else disambiguate_each interp from_global_id (py_iter ids))"

subsection \<open>Encoded global ids\<close>

text \<open>
  Modelled from the spec: the tokens that the codec decodes. A Relay global id is "an
  opaque encoded string combining a type name and a local identifier", and the
  docstring of \<^verbatim>\<open>disambiguate_id\<close> calls it a "base64 encoded global relay value":
  \<^verbatim>\<open>to_global_id\<close> of \<^verbatim>\<open>graphql_relay\<close> is the Base64 text of the UTF-8 bytes of the type name,
  a colon and the local id. UTF-8 has no encoding for a surrogate (\<open>None\<close>). The type
  name is the name of a GraphQL type, which starts with a letter or an underscore.
\<close>

definition utf8_bytes :: "nat \<Rightarrow> nat list option" where
  "utf8_bytes cp =
     (if cp < 0x80 then Some [cp]
      else if cp < 0x800 then Some [0xC0 + cp div 64, 0x80 + cp mod 64]
      else if 0xD800 \<le> cp \<and> cp < 0xE000 then None
      else if cp < 0x10000
      then Some [0xE0 + cp div 4096, 0x80 + cp div 64 mod 64, 0x80 + cp mod 64]
      else Some [0xF0 + cp div 262144, 0x80 + cp div 4096 mod 64, 0x80 + cp div 64 mod 64,
                 0x80 + cp mod 64])"

fun utf8_encode :: "pystr \<Rightarrow> nat list option" where
  "utf8_encode [] = Some []"
| "utf8_encode (cp # rest) =
     (case utf8_bytes cp of
        None \<Rightarrow> None
      | Some bs \<Rightarrow> (case utf8_encode rest of None \<Rightarrow> None | Some bs' \<Rightarrow> Some (bs @ bs')))"

definition b64_alphabet :: string where
  "b64_alphabet = ''ABCDEFGHIJKLMNOPQRSTUVWXYZabcdefghijklmnopqrstuvwxyz0123456789+/''"

definition b64_digit :: "nat \<Rightarrow> nat" where
  "b64_digit i = ord (b64_alphabet ! i)"

fun b64encode :: "nat list \<Rightarrow> pystr" where
  "b64encode [] = []"
| "b64encode [a] =
     [b64_digit (a div 4), b64_digit (a mod 4 * 16), ord CHR ''='', ord CHR ''='']"
| "b64encode [a, b] =
     [b64_digit (a div 4), b64_digit (a mod 4 * 16 + b div 16), b64_digit (b mod 16 * 4),
      ord CHR ''='']"
| "b64encode (a # b # c # rest) =
     b64_digit (a div 4) # b64_digit (a mod 4 * 16 + b div 16) #
     b64_digit (b mod 16 * 4 + c div 64) # b64_digit (c mod 64) # b64encode rest"

definition to_global_id :: "pystr \<Rightarrow> pystr \<Rightarrow> pystr option" where
  "to_global_id type_name local_id =
     map_option b64encode (utf8_encode (type_name @ [ord CHR '':''] @ local_id))"

definition is_name_start :: "nat \<Rightarrow> bool" where
  "is_name_start c =
     (c = ord CHR ''_'' \<or> (ord CHR ''A'' \<le> c \<and> c \<le> ord CHR ''Z'') \<or>
      (ord CHR ''a'' \<le> c \<and> c \<le> ord CHR ''z''))"

section \<open>Nested-field shorthand\<close>

text \<open>
  \<^verbatim>\<open>type_name x\<close> is \<^verbatim>\<open>type(x).__name__\<close> and \<^verbatim>\<open>type_repr x\<close> is what an f-string prints
  for \<^verbatim>\<open>{type(x)}\<close>.
\<close>

fun type_name :: "pyval \<Rightarrow> string" where
  "type_name PNone = ''NoneType''"
| "type_name (PBool _) = ''bool''"
| "type_name (PInt _) = ''int''"
| "type_name (PFloat _) = ''float''"
| "type_name (PStr _) = ''str''"
| "type_name (PList _) = ''list''"
| "type_name (PDict _) = ''dict''"

definition quoted :: "string \<Rightarrow> string" where
  "quoted s = [CHR 0x27] @ s @ [CHR 0x27]"

definition type_repr :: "pyval \<Rightarrow> string" where
  "type_repr x = ''<class '' @ quoted (type_name x) @ ''>''"

fun is_str :: "pyval \<Rightarrow> bool" where
  "is_str (PStr _) = True"
| "is_str _ = False"

fun is_dict :: "pyval \<Rightarrow> bool" where
  "is_dict (PDict _) = True"
| "is_dict _ = False"

fun is_bool :: "pyval \<Rightarrow> bool" where
  "is_bool (PBool _) = True"
| "is_bool _ = False"

text \<open>
  The loop of \<^verbatim>\<open>overload_nested_fields\<close> over the elements of the iterable; \<open>result\<close> is
  the dict built so far, and \<^verbatim>\<open>result[el] = ["all"]\<close> is \<open>AList.update\<close>: an existing key
  keeps its place, a new one goes last.
\<close>

fun nested_fields_loop ::
  "pyval list \<Rightarrow> (pyval \<times> pyval) list \<Rightarrow> py_error + (pyval \<times> pyval) list" where
  "nested_fields_loop [] result = Inr result"
| "nested_fields_loop (el # els) result =
     (if \<not> is_str el
      then Inl (ValueError
             (''Nested field iterable entry has to be a string. Got '' @ type_repr el))
      else nested_fields_loop els (AList.update el (PList [PStr (ascii ''all'')]) result))"

definition overload_nested_fields :: "pyval \<Rightarrow> py_error + pyval" where
  "overload_nested_fields nested_fields =
     (if nested_fields = PNone then Inr (PDict [])
      else if is_dict nested_fields then Inr nested_fields
      else if has_iter nested_fields
      then (case nested_fields_loop (py_iter nested_fields) [] of
              Inl e \<Rightarrow> Inl e
            | Inr result \<Rightarrow> Inr (PDict result))
      else Inr (PDict []))"

section \<open>Input fields of a model\<close>

text \<open>
  A Django field, as far as this module reads it: its class and its \<^verbatim>\<open>primary_key\<close>
  attribute, which reverse relations do not have (\<open>None\<close>); the module reads it with
  \<^verbatim>\<open>getattr(field, "primary_key", False)\<close>.
\<close>

datatype django_field =
  DjangoField (field_class: string) (primary_key: "bool option")

text \<open>
  Modelled from the spec: \<^verbatim>\<open>get_model_fields\<close> of \<^verbatim>\<open>graphene_django\<close>, the field reflection
  source, which "given a model, returns an ordered sequence of (name, field-descriptor)
  pairs". A model is what \<^verbatim>\<open>str\<close> prints for it and that sequence.
\<close>

datatype django_model =
  DjangoModel (model_str: string) (get_model_fields: "(string \<times> django_field) list")

definition getattr_primary_key :: "django_field \<Rightarrow> bool" where
  "getattr_primary_key field = (case primary_key field of None \<Rightarrow> False | Some b \<Rightarrow> b)"

text \<open>
  An extras configuration maps a field name to a dict from operation name to a
  configuration value. The built mapping is an \<^verbatim>\<open>OrderedDict\<close> from field name to what the
  converter returned, which may be \<^verbatim>\<open>None\<close>.
\<close>

type_synonym extras = "(string \<times> (string \<times> pyval) list) list"

type_synonym 'ty input_fields = "(string \<times> 'ty option) list"

text \<open>
  Modelled from the spec: the converters of \<^verbatim>\<open>graphene_django_cud.converter\<close>, each of
  which "returns an input-type descriptor or nothing". \<^verbatim>\<open>convert_django_field_with_choices\<close>
  receives the field, the tri-state \<^verbatim>\<open>required\<close> (\<^verbatim>\<open>None\<close>, \<^verbatim>\<open>False\<close> or \<^verbatim>\<open>True\<close>), the
  many-to-many "exact" extra and the foreign-key extras of the field;
  \<^verbatim>\<open>convert_many_to_many_field\<close> receives the field, \<^verbatim>\<open>required\<close> and the configuration of
  the operation. The type registry, a process-wide constant, is part of the parameter.
\<close>

type_synonym 'ty field_converter =
  "django_field \<Rightarrow> bool option \<Rightarrow> pyval \<Rightarrow> (string \<times> pyval) list \<Rightarrow> 'ty option"

type_synonym 'ty m2m_converter = "django_field \<Rightarrow> bool \<Rightarrow> pyval \<Rightarrow> 'ty option"

definition or_empty :: "extras option \<Rightarrow> extras" where
  "or_empty extras = (case extras of None \<Rightarrow> [] | Some ex \<Rightarrow> ex)"

text \<open>\<^verbatim>\<open>many_to_many_extras.get(name, {}).get('exact')\<close>\<close>

definition get_exact :: "extras \<Rightarrow> string \<Rightarrow> pyval" where
  "get_exact many_to_many_extras name =
     (case map_of many_to_many_extras name of
        None \<Rightarrow> PNone
      | Some ex \<Rightarrow> (case map_of ex ''exact'' of None \<Rightarrow> PNone | Some data \<Rightarrow> data))"

text \<open>\<^verbatim>\<open>foreign_key_extras.get(name, {})\<close>\<close>

definition get_fk :: "extras \<Rightarrow> string \<Rightarrow> (string \<times> pyval) list" where
  "get_fk foreign_key_extras name =
     (case map_of foreign_key_extras name of None \<Rightarrow> [] | Some ex \<Rightarrow> ex)"

definition endswith_plus :: "string \<Rightarrow> bool" where
  "endswith_plus name = (name \<noteq> [] \<and> last name = CHR ''+'')"

text \<open>
  The test that both builders make on a field that is not the primary key: the three
  flags and their disjunction. \<^verbatim>\<open>only_fields\<close> is falsy when it is empty.
\<close>

definition is_skipped :: "string list \<Rightarrow> string list \<Rightarrow> string \<Rightarrow> bool" where
  "is_skipped only_fields exclude_fields name =
     (let is_not_in_only = (only_fields \<noteq> [] \<and> name \<notin> set only_fields);
          is_excluded = (name \<in> set exclude_fields);
          is_no_backref = endswith_plus name
      in is_not_in_only \<or> is_excluded \<or> is_no_backref)"

subsection \<open>\<^verbatim>\<open>get_input_fields_for_model\<close>\<close>

text \<open>
  The first loop, over the reflected fields. Its state is the pair of \<^verbatim>\<open>fields\<close> and
  \<^verbatim>\<open>fields_lookup\<close>.
\<close>

fun convert_model_fields ::
  "'ty field_converter \<Rightarrow> string list \<Rightarrow> string list \<Rightarrow> string list \<Rightarrow> string list \<Rightarrow>
   extras \<Rightarrow> extras \<Rightarrow> (string \<times> django_field) list \<Rightarrow>
   'ty input_fields \<times> (string \<rightharpoonup> django_field) \<Rightarrow>
   'ty input_fields \<times> (string \<rightharpoonup> django_field)" where
  "convert_model_fields conv only_fields exclude_fields optional_fields required_fields
     many_to_many_extras foreign_key_extras [] state = state"
| "convert_model_fields conv only_fields exclude_fields optional_fields required_fields
     many_to_many_extras foreign_key_extras ((name, field) # rest) (fields, fields_lookup) =
     (if getattr_primary_key field
      then convert_model_fields conv only_fields exclude_fields optional_fields
             required_fields many_to_many_extras foreign_key_extras rest
             (fields, fields_lookup)
      else
        let fields_lookup = fields_lookup(name \<mapsto> field)
        in if is_skipped only_fields exclude_fields name
           then convert_model_fields conv only_fields exclude_fields optional_fields
                  required_fields many_to_many_extras foreign_key_extras rest
                  (fields, fields_lookup)
           else
             let required =
                   (if name \<in> set optional_fields then Some False
                    else if name \<in> set required_fields then Some True
                    else None);
                 converted =
                   conv field required (get_exact many_to_many_extras name)
                     (get_fk foreign_key_extras name)
             in convert_model_fields conv only_fields exclude_fields optional_fields
                  required_fields many_to_many_extras foreign_key_extras rest
                  (AList.update name converted fields, fields_lookup))"

text \<open>\<^verbatim>\<open>fields[name]\<close> raises \<^verbatim>\<open>KeyError\<close> on a missing key.\<close>

definition getitem :: "'ty input_fields \<Rightarrow> string \<Rightarrow> py_error + 'ty option" where
  "getitem fields name =
     (case map_of fields name of None \<Rightarrow> Inl (KeyError name) | Some v \<Rightarrow> Inr v)"

definition no_attribute_get :: "pyval \<Rightarrow> py_error" where
  "no_attribute_get x =
     AttributeError (quoted (type_name x) @ '' object has no attribute '' @ quoted ''get'')"

text \<open>
  The inner loop over the operations of one extras entry. A boolean is replaced by the
  empty dict; \<^verbatim>\<open>data.get('type')\<close> then needs \<open>data\<close> to be a dict. A falsy result of the
  converter is replaced by \<^verbatim>\<open>fields[name]\<close>.
\<close>

fun add_extra_operations ::
  "'ty m2m_converter \<Rightarrow> string \<Rightarrow> django_field \<Rightarrow> (string \<times> pyval) list \<Rightarrow>
   'ty input_fields \<Rightarrow> py_error + 'ty input_fields" where
  "add_extra_operations conv_m2m name field [] fields = Inr fields"
| "add_extra_operations conv_m2m name field ((extra_name, data) # rest) fields =
     (if extra_name = ''exact''
      then add_extra_operations conv_m2m name field rest fields
      else
        let data = (if is_bool data then PDict [] else data)
        in if \<not> is_dict data then Inl (no_attribute_get data)
           else
             (case conv_m2m field False data of
                Some t \<Rightarrow>
                  add_extra_operations conv_m2m name field rest
                    (AList.update (name @ ''_'' @ extra_name) (Some t) fields)
              | None \<Rightarrow>
                  (case getitem fields name of
                     Inl e \<Rightarrow> Inl e
                   | Inr v \<Rightarrow>
                       add_extra_operations conv_m2m name field rest
                         (AList.update (name @ ''_'' @ extra_name) v fields))))"

definition missing_field_message :: "string \<Rightarrow> string \<Rightarrow> string" where
  "missing_field_message name model_repr =
     ''Error adding extras for '' @ name @ '' in model f'' @ model_repr @
     ''. Field '' @ name @ '' does not exist.''"

text \<open>The second loop, over the entries of \<^verbatim>\<open>many_to_many_extras\<close>.\<close>

fun add_many_to_many_extras ::
  "'ty m2m_converter \<Rightarrow> string \<Rightarrow> (string \<rightharpoonup> django_field) \<Rightarrow> extras \<Rightarrow>
   'ty input_fields \<Rightarrow> py_error + 'ty input_fields" where
  "add_many_to_many_extras conv_m2m model_repr fields_lookup [] fields = Inr fields"
| "add_many_to_many_extras conv_m2m model_repr fields_lookup ((name, extras) # rest) fields =
     (case fields_lookup name of
        None \<Rightarrow> Inl (GraphQLError (missing_field_message name model_repr))
      | Some field \<Rightarrow>
          (case add_extra_operations conv_m2m name field extras fields of
             Inl e \<Rightarrow> Inl e
           | Inr fields' \<Rightarrow>
               add_many_to_many_extras conv_m2m model_repr fields_lookup rest fields'))"

definition get_input_fields_for_model ::
  "'ty field_converter \<Rightarrow> 'ty m2m_converter \<Rightarrow> django_model \<Rightarrow> string list \<Rightarrow> string list \<Rightarrow>
   string list \<Rightarrow> string list \<Rightarrow> extras option \<Rightarrow> extras option \<Rightarrow>
   py_error + 'ty input_fields" where
  "get_input_fields_for_model conv conv_m2m model only_fields exclude_fields optional_fields
     required_fields many_to_many_extras foreign_key_extras =
     (let model_fields = get_model_fields model;
          many_to_many_extras = or_empty many_to_many_extras;
          foreign_key_extras = or_empty foreign_key_extras;
          (fields, fields_lookup) =
            convert_model_fields conv only_fields exclude_fields optional_fields
              required_fields many_to_many_extras foreign_key_extras model_fields
              ([], Map.empty)
      in add_many_to_many_extras conv_m2m (model_str model) fields_lookup
           many_to_many_extras fields)"

subsection \<open>\<^verbatim>\<open>get_all_optional_input_fields_for_model\<close>\<close>

text \<open>
  The source repeats both loops in the second builder; they are translated a second time
  from that text, so that the two builders can be compared.
\<close>

fun convert_model_fields_all_optional ::
  "'ty field_converter \<Rightarrow> string list \<Rightarrow> string list \<Rightarrow> extras \<Rightarrow> extras \<Rightarrow>
   (string \<times> django_field) list \<Rightarrow>
   'ty input_fields \<times> (string \<rightharpoonup> django_field) \<Rightarrow>
   'ty input_fields \<times> (string \<rightharpoonup> django_field)" where
  "convert_model_fields_all_optional conv only_fields exclude_fields
     many_to_many_extras foreign_key_extras [] state = state"
| "convert_model_fields_all_optional conv only_fields exclude_fields
     many_to_many_extras foreign_key_extras ((name, field) # rest) (fields, fields_lookup) =
     (if getattr_primary_key field
      then convert_model_fields_all_optional conv only_fields exclude_fields
             many_to_many_extras foreign_key_extras rest (fields, fields_lookup)
      else
        let fields_lookup = fields_lookup(name \<mapsto> field)
        in if is_skipped only_fields exclude_fields name
           then convert_model_fields_all_optional conv only_fields exclude_fields
                  many_to_many_extras foreign_key_extras rest (fields, fields_lookup)
           else
             let converted =
                   conv field (Some False) (get_exact many_to_many_extras name)
                     (get_fk foreign_key_extras name)
             in convert_model_fields_all_optional conv only_fields exclude_fields
                  many_to_many_extras foreign_key_extras rest
                  (AList.update name converted fields, fields_lookup))"

fun add_extra_operations_all_optional ::
  "'ty m2m_converter \<Rightarrow> string \<Rightarrow> django_field \<Rightarrow> (string \<times> pyval) list \<Rightarrow>
   'ty input_fields \<Rightarrow> py_error + 'ty input_fields" where
  "add_extra_operations_all_optional conv_m2m name field [] fields = Inr fields"
| "add_extra_operations_all_optional conv_m2m name field ((extra_name, data) # rest) fields =
     (if extra_name = ''exact''
      then add_extra_operations_all_optional conv_m2m name field rest fields
      else
        let data = (if is_bool data then PDict [] else data)
        in if \<not> is_dict data then Inl (no_attribute_get data)
           else
             (case conv_m2m field False data of
                Some t \<Rightarrow>
                  add_extra_operations_all_optional conv_m2m name field rest
                    (AList.update (name @ ''_'' @ extra_name) (Some t) fields)
              | None \<Rightarrow>
                  (case getitem fields name of
                     Inl e \<Rightarrow> Inl e
                   | Inr v \<Rightarrow>
                       add_extra_operations_all_optional conv_m2m name field rest
                         (AList.update (name @ ''_'' @ extra_name) v fields))))"

fun add_many_to_many_extras_all_optional ::
  "'ty m2m_converter \<Rightarrow> string \<Rightarrow> (string \<rightharpoonup> django_field) \<Rightarrow> extras \<Rightarrow>
   'ty input_fields \<Rightarrow> py_error + 'ty input_fields" where
  "add_many_to_many_extras_all_optional conv_m2m model_repr fields_lookup [] fields =
     Inr fields"
| "add_many_to_many_extras_all_optional conv_m2m model_repr fields_lookup
     ((name, extras) # rest) fields =
     (case fields_lookup name of
        None \<Rightarrow> Inl (GraphQLError (missing_field_message name model_repr))
      | Some field \<Rightarrow>
          (case add_extra_operations_all_optional conv_m2m name field extras fields of
             Inl e \<Rightarrow> Inl e
           | Inr fields' \<Rightarrow>
               add_many_to_many_extras_all_optional conv_m2m model_repr fields_lookup rest
                 fields'))"

definition get_all_optional_input_fields_for_model ::
  "'ty field_converter \<Rightarrow> 'ty m2m_converter \<Rightarrow> django_model \<Rightarrow> string list \<Rightarrow> string list \<Rightarrow>
   extras option \<Rightarrow> extras option \<Rightarrow> py_error + 'ty input_fields" where
  "get_all_optional_input_fields_for_model conv conv_m2m model only_fields exclude_fields
     many_to_many_extras foreign_key_extras =
     (let model_fields = get_model_fields model;
          many_to_many_extras = or_empty many_to_many_extras;
          foreign_key_extras = or_empty foreign_key_extras;
          (fields, fields_lookup) =
            convert_model_fields_all_optional conv only_fields exclude_fields
              many_to_many_extras foreign_key_extras model_fields ([], Map.empty)
      in add_many_to_many_extras_all_optional conv_m2m (model_str model) fields_lookup
           many_to_many_extras fields)"

section \<open>Names of the extras fields\<close>

text \<open>
  \<^verbatim>\<open>get_m2m_all_extras_field_names\<close>: two nested loops that append to \<^verbatim>\<open>res\<close>. The
  argument is falsy when it is \<^verbatim>\<open>None\<close> or the empty dict.
\<close>

fun extra_names_of_entry :: "string \<Rightarrow> (string \<times> pyval) list \<Rightarrow> string list \<Rightarrow> string list" where
  "extra_names_of_entry name [] res = res"
| "extra_names_of_entry name ((extra_name, _) # rest) res =
     (if extra_name \<noteq> ''exact''
      then extra_names_of_entry name rest (res @ [name @ ''_'' @ extra_name])
      else extra_names_of_entry name rest (res @ [name]))"

fun extra_names_of_entries :: "extras \<Rightarrow> string list \<Rightarrow> string list" where
  "extra_names_of_entries [] res = res"
| "extra_names_of_entries ((name, extra) # rest) res =
     extra_names_of_entries rest (extra_names_of_entry name extra res)"

definition get_m2m_all_extras_field_names :: "extras option \<Rightarrow> string list" where
  "get_m2m_all_extras_field_names extras =
     (let res = [] in
      if or_empty extras = [] then [] else extra_names_of_entries (or_empty extras) res)"

text \<open>
  \<^verbatim>\<open>get_fk_all_extras_field_names\<close> returns \<^verbatim>\<open>extras.keys()\<close>, a view of the keys in
  insertion order, read here as the list of them.
\<close>

definition get_fk_all_extras_field_names :: "extras option \<Rightarrow> string list" where
  "get_fk_all_extras_field_names extras =
     (if or_empty extras = [] then [] else map fst (or_empty extras))"

section \<open>Collaborators used in the examples\<close>

text \<open>
  The interpreter tables of CPython 3.11: the whitespace code points, the code points of
  the digit zero of each decimal digit block of Unicode 14.0, and the default limit of
  4300 digits. A codec given by a table from token to type name and local id, both
  strings, which raises on every other token; a field converter that returns the class
  of the field as the input type, and one that returns \<^verbatim>\<open>required\<close>; a many-to-many
  converter that yields nothing, and one that yields a list type.
\<close>

definition space_code_points :: "nat list" where
  "space_code_points =
     [0x9, 0xA, 0xB, 0xC, 0xD, 0x1C, 0x1D, 0x1E, 0x1F, 0x20, 0x85, 0xA0, 0x1680,
      0x2000, 0x2001, 0x2002, 0x2003, 0x2004, 0x2005, 0x2006, 0x2007, 0x2008, 0x2009,
      0x200A, 0x2028, 0x2029, 0x202F, 0x205F, 0x3000]"

definition decimal_zeros :: "nat list" where
  "decimal_zeros =
     [0x30, 0x660, 0x6F0, 0x7C0, 0x966, 0x9E6, 0xA66, 0xAE6, 0xB66, 0xBE6, 0xC66, 0xCE6,
      0xD66, 0xDE6, 0xE50, 0xED0, 0xF20, 0x1040, 0x1090, 0x17E0, 0x1810, 0x1946, 0x19D0,
      0x1A80, 0x1A90, 0x1B50, 0x1BB0, 0x1C40, 0x1C50, 0xA620, 0xA8D0, 0xA900, 0xA9D0,
      0xA9F0, 0xAA50, 0xABF0, 0xFF10, 0x104A0, 0x10D30, 0x11066, 0x110F0, 0x11136,
      0x111D0, 0x112F0, 0x11450, 0x114D0, 0x11650, 0x116C0, 0x11730, 0x118E0, 0x11950,
      0x11C50, 0x11D50, 0x11DA0, 0x16A60, 0x16AC0, 0x16B50, 0x1D7CE, 0x1D7D8, 0x1D7E2,
      0x1D7EC, 0x1D7F6, 0x1E140, 0x1E2F0, 0x1E950, 0x1FBF0]"

definition decimal_value :: "nat \<Rightarrow> nat option" where
  "decimal_value ch =
     (case filter (\<lambda>zero. zero \<le> ch \<and> ch < zero + 10) decimal_zeros of
        [] \<Rightarrow> None
      | zero # _ \<Rightarrow> Some (ch - zero))"

definition cpython :: interpreter where
  "cpython = Interpreter (\<lambda>ch. ch \<in> set space_code_points) decimal_value 4300"

definition table_codec :: "(string \<times> string \<times> string) list \<Rightarrow> global_id_codec" where
  "table_codec table token =
     (case token of
        PStr s \<Rightarrow>
          (case filter (\<lambda>entry. ascii (fst entry) = s) table of
             [] \<Rightarrow> Inl (ValueError ''Incorrect padding'')
           | (_, ty, local_id) # _ \<Rightarrow> Inr (PStr (ascii ty), PStr (ascii local_id)))
      | _ \<Rightarrow> Inl (TypeError ''argument should be a bytes-like object or ASCII string''))"

definition class_converter :: "string field_converter" where
  "class_converter field required exact fk = Some (field_class field)"

definition required_converter :: "(bool option) field_converter" where
  "required_converter field required exact fk = Some required"

definition nothing_m2m_converter :: "'ty m2m_converter" where
  "nothing_m2m_converter field required data = None"

definition list_m2m_converter :: "string m2m_converter" where
  "list_m2m_converter field required data = Some (''List of '' @ field_class field)"

section \<open>Properties of the identifier disambiguation\<close>

lemmas int_simps = int_of_str_def transform_decimal_and_space_def is_ascii_space_def
  digit_of_def invalid_literal_def str_digits_check_threshold_def ord_def ascii_def Let_def

lemmas cpython_simps = cpython_def space_code_points_def decimal_value_def decimal_zeros_def

lemma disambiguate_id_returns: "\<exists>v. disambiguate_id interp c x = Inr v"
  by (simp add: disambiguate_id_def Let_def)

lemma disambiguate_each_returns:
  "\<exists>vs. disambiguate_each interp c xs = Inr vs \<and> length vs = length xs \<and>
        (\<forall>i<length xs. disambiguate_id interp c (xs ! i) = Inr (vs ! i))"
proof (induction xs)
  case Nil
  show ?case by simp
next
  case (Cons x xs)
  obtain v where v: "disambiguate_id interp c x = Inr v"
    using disambiguate_id_returns by blast
  from Cons.IH obtain vs where vs: "disambiguate_each interp c xs = Inr vs"
    "length vs = length xs"
    "\<forall>i<length xs. disambiguate_id interp c (xs ! i) = Inr (vs ! i)" by blast
  have "disambiguate_each interp c (x # xs) = Inr (v # vs)" using v vs(1) by simp
  moreover have "\<forall>i<length (x # xs).
      disambiguate_id interp c ((x # xs) ! i) = Inr ((v # vs) ! i)"
    using v vs(3) by (auto simp: nth_Cons split: nat.splits)
  ultimately show ?case using vs(2) by auto
qed

subsection \<open>An encoded global id is not an integer literal\<close>

lemma transform_keeps_head:
  "d < 127 \<Longrightarrow> \<exists>xs. transform_decimal_and_space interp (d # rest) = d # xs"
  by (simp add: transform_decimal_and_space_def)

lemma int_of_str_letter:
  assumes "65 \<le> d" and "d \<le> 122" and "d \<noteq> 95"
  shows "int_of_str interp (d # rest) = Inl invalid_literal"
proof -
  from assms obtain xs where xs: "transform_decimal_and_space interp (d # rest) = d # xs"
    using transform_keeps_head [of d interp rest] by auto
  from assms have "\<not> is_ascii_space d"
    by (simp add: is_ascii_space_def ord_def)
  then have str: "dropWhile is_ascii_space (d # xs) = d # xs"
    by simp
  from assms have sign: "d \<noteq> ord CHR ''+''" "d \<noteq> ord CHR ''-''" "d \<noteq> ord CHR ''_''"
    by (simp_all add: ord_def)
  from assms have "digit_of d = None"
    by (simp add: digit_of_def ord_def)
  with sign have scan: "scan_digits (d # xs) 0 0 False = Some (0, 0, d # xs)"
    by simp
  show ?thesis
    unfolding int_of_str_def xs str using sign scan by (simp add: Let_def)
qed

lemma b64_digit_letter: "\<forall>k\<in>set [16..<31]. 65 \<le> b64_digit k \<and> b64_digit k \<le> 122 \<and> b64_digit k \<noteq> 95"
  by code_simp

lemma b64encode_head:
  "\<exists>rest. b64encode (a # bs) = b64_digit (a div 4) # rest"
proof (cases bs)
  case Nil
  then show ?thesis by simp
next
  case (Cons b bs')
  then show ?thesis by (cases bs') simp_all
qed

lemma global_id_head:
  assumes "is_name_start c" and "to_global_id (c # cs) local_id = Some token"
  shows "\<exists>d rest. token = d # rest \<and> 65 \<le> d \<and> d \<le> 122 \<and> d \<noteq> 95"
proof -
  from assms(1) have range: "64 \<le> c" "c < 124"
    by (auto simp: is_name_start_def ord_def)
  then have "utf8_bytes c = Some [c]"
    by (simp add: utf8_bytes_def)
  with assms(2) obtain bs where "token = b64encode (c # bs)"
    by (auto simp: to_global_id_def split: option.splits)
  with b64encode_head [of c bs] obtain rest where token: "token = b64_digit (c div 4) # rest"
    by auto
  from range have "16 \<le> c div 4" "c div 4 < 31" by simp_all
  then have "c div 4 \<in> set [16..<31]" by (simp only: set_upt atLeastLessThan_iff)
  with b64_digit_letter have "65 \<le> b64_digit (c div 4) \<and> b64_digit (c div 4) \<le> 122 \<and>
      b64_digit (c div 4) \<noteq> 95"
    by blast
  with token show ?thesis by blast
qed

lemma py_int_global_id:
  assumes "is_name_start c" and "to_global_id (c # cs) local_id = Some token"
  shows "py_int interp (PStr token) = Inl invalid_literal"
proof -
  from global_id_head [OF assms] obtain d rest where
    "token = d # rest" "65 \<le> d" "d \<le> 122" "d \<noteq> 95"
    by blast
  then show ?thesis by (simp add: int_of_str_letter)
qed

lemma disambiguate_id_global_id:
  assumes "is_name_start c" and "to_global_id (c # cs) local_id = Some token"
    and "from_global_id (PStr token) = Inr (ty, k)"
  shows "disambiguate_id interp from_global_id (PStr token) = Inr k"
proof -
  have "py_int interp (PStr token) = Inl invalid_literal"
    by (rule py_int_global_id [OF assms(1) assms(2)])
  then show ?thesis
    using assms(3) by (simp add: disambiguate_id_def invalid_literal_def)
qed

lemma type_3_token: "to_global_id (ord CHR ''T'' # ascii ''ype'') (ascii ''3'') = Some (ascii ''VHlwZToz'')"
  by (simp add: to_global_id_def utf8_bytes_def b64_digit_def b64_alphabet_def ord_def ascii_def)

lemma type_3_decoded:
  "table_codec [(''VHlwZToz'', ''Type'', ''3'')] (PStr (ascii ''VHlwZToz'')) =
     Inr (PStr (ascii ''Type''), PStr (ascii ''3''))"
  by (simp add: table_codec_def)

text \<open>
  C1 (as amended). When the integer parse of a token fails and the codec fails on it as
  well, \<^verbatim>\<open>disambiguate_id\<close> raises nothing: it returns the initial value \<open>-1\<close> of
  \<^verbatim>\<open>final_id\<close>.
\<close>

theorem disambiguate_id_fallback:
  "py_int interp t = Inl e \<Longrightarrow> from_global_id t = Inl e' \<Longrightarrow>
   disambiguate_id interp from_global_id t = Inr (PInt (- 1))"
  by (simp add: disambiguate_id_def Let_def)

theorem disambiguate_id_fallback_witness:
  "py_int cpython (PStr (ascii ''abc'')) =
     Inl (ValueError ''invalid literal for int() with base 10'') \<and>
   table_codec [] (PStr (ascii ''abc'')) = Inl (ValueError ''Incorrect padding'') \<and>
   disambiguate_id cpython (table_codec []) (PStr (ascii ''abc'')) = Inr (PInt (- 1))"
proof -
  have p: "py_int cpython (PStr (ascii ''abc'')) =
      Inl (ValueError ''invalid literal for int() with base 10'')"
    by (simp add: int_simps)
  have d: "table_codec [] (PStr (ascii ''abc'')) = Inl (ValueError ''Incorrect padding'')"
    by (simp add: table_codec_def)
  show ?thesis
    using p d disambiguate_id_fallback [of cpython "PStr (ascii ''abc'')" _ "table_codec []", OF p d]
    by simp
qed

text \<open>
  C1 as stated fails: on the token \<^verbatim>\<open>"abc"\<close> the integer parse fails, the codec fails, and
  the call returns a value, not an error.
\<close>

theorem disambiguate_id_no_propagation:
  "py_int cpython (PStr (ascii ''abc'')) =
     Inl (ValueError ''invalid literal for int() with base 10'') \<and>
   table_codec [] (PStr (ascii ''abc'')) = Inl (ValueError ''Incorrect padding'') \<and>
   disambiguate_id cpython (table_codec []) (PStr (ascii ''abc'')) = Inr (PInt (- 1)) \<and>
   disambiguate_id cpython (table_codec []) (PStr (ascii ''abc'')) \<noteq>
     Inl (ValueError ''Incorrect padding'')"
  by (simp add: disambiguate_id_def table_codec_def int_simps)

text \<open>
  C4. A token that \<^verbatim>\<open>int\<close> accepts, an integer or a numeric string, is disambiguated to
  \<^verbatim>\<open>int\<close> of it. A valid encoded global token, the Base64 text of a type name, a colon
  and a local id, that the codec decodes to a type name and a local id is
  disambiguated to that local id, and the type name is dropped. The same holds for every
  token on which \<^verbatim>\<open>int\<close> raises \<^verbatim>\<open>ValueError\<close> and that the codec decodes.
\<close>

theorem disambiguate_id_value:
  "(py_int interp t = Inr n \<longrightarrow> disambiguate_id interp from_global_id t = Inr (PInt n)) \<and>
   (is_name_start c \<and> to_global_id (c # cs) local_id = Some token \<and>
    from_global_id (PStr token) = Inr (ty, k) \<longrightarrow>
      disambiguate_id interp from_global_id (PStr token) = Inr k) \<and>
   (py_int interp u = Inl (ValueError msg) \<and> from_global_id u = Inr (ty', k') \<longrightarrow>
      disambiguate_id interp from_global_id u = Inr k')"
proof (intro conjI impI)
  assume "py_int interp t = Inr n"
  then show "disambiguate_id interp from_global_id t = Inr (PInt n)"
    by (simp add: disambiguate_id_def)
next
  assume "is_name_start c \<and> to_global_id (c # cs) local_id = Some token \<and>
    from_global_id (PStr token) = Inr (ty, k)"
  then show "disambiguate_id interp from_global_id (PStr token) = Inr k"
    using disambiguate_id_global_id by blast
next
  assume "py_int interp u = Inl (ValueError msg) \<and> from_global_id u = Inr (ty', k')"
  then show "disambiguate_id interp from_global_id u = Inr k'"
    by (simp add: disambiguate_id_def)
qed

theorem disambiguate_id_value_witness:
  "py_int cpython (PStr [0x661, 0x662]) = Inr 12 \<and>
   disambiguate_id cpython (table_codec [(''VHlwZToz'', ''Type'', ''3'')])
     (PStr [0x661, 0x662]) = Inr (PInt 12) \<and>
   is_name_start (ord CHR ''T'') \<and>
   to_global_id (ord CHR ''T'' # ascii ''ype'') (ascii ''3'') = Some (ascii ''VHlwZToz'') \<and>
   table_codec [(''VHlwZToz'', ''Type'', ''3'')] (PStr (ascii ''VHlwZToz'')) =
     Inr (PStr (ascii ''Type''), PStr (ascii ''3'')) \<and>
   py_int cpython (PStr (ascii ''VHlwZToz'')) =
     Inl (ValueError ''invalid literal for int() with base 10'') \<and>
   disambiguate_id cpython (table_codec [(''VHlwZToz'', ''Type'', ''3'')])
     (PStr (ascii ''VHlwZToz'')) = Inr (PStr (ascii ''3''))"
proof -
  have p: "py_int cpython (PStr [0x661, 0x662]) = Inr 12"
    by (simp add: int_simps cpython_simps)
  have s: "is_name_start (ord CHR ''T'')"
    by (simp add: is_name_start_def ord_def)
  have q: "py_int cpython (PStr (ascii ''VHlwZToz'')) =
      Inl (ValueError ''invalid literal for int() with base 10'')"
    using py_int_global_id [OF s type_3_token] by (simp add: invalid_literal_def)
  note inst = disambiguate_id_value [of cpython "PStr [0x661, 0x662]" 12
      "table_codec [(''VHlwZToz'', ''Type'', ''3'')]" "ord CHR ''T''" "ascii ''ype''"
      "ascii ''3''" "ascii ''VHlwZToz''" "PStr (ascii ''Type'')" "PStr (ascii ''3'')"
      "PStr (ascii ''VHlwZToz'')" "''invalid literal for int() with base 10''"
      "PStr (ascii ''Type'')" "PStr (ascii ''3'')"]
  show ?thesis
    using p s q type_3_token type_3_decoded inst by simp
qed

text \<open>
  C7 (as amended). On an argument that is not iterable, \<^verbatim>\<open>disambiguate_ids\<close> returns the
  one-element list of \<^verbatim>\<open>disambiguate_id\<close> of it. On an iterable it returns, in the order
  of iteration, \<^verbatim>\<open>disambiguate_id\<close> of each element. So the list of 1, \<^verbatim>\<open>"2"\<close> and an
  encoded global token gives 1, 2 and the local id as the codec returns it, a string
  that is not converted to an integer.
\<close>

theorem disambiguate_ids_elementwise:
  "(\<not> has_iter x \<longrightarrow>
      (\<exists>v. disambiguate_id interp from_global_id x = Inr v \<and>
           disambiguate_ids interp from_global_id x = Inr [v])) \<and>
   (has_iter y \<longrightarrow>
      (\<exists>vs. disambiguate_ids interp from_global_id y = Inr vs \<and>
            length vs = length (py_iter y) \<and>
            (\<forall>i<length (py_iter y).
               disambiguate_id interp from_global_id (py_iter y ! i) = Inr (vs ! i)))) \<and>
   (is_name_start c \<and> to_global_id (c # cs) local_id = Some token \<and>
    from_global_id (PStr token) = Inr (ty, PStr k) \<longrightarrow>
      disambiguate_ids interp from_global_id (PList [PInt 1, PStr (ascii ''2''), PStr token]) =
        Inr [PInt 1, PInt 2, PStr k])"
proof (intro conjI impI)
  assume "\<not> has_iter x"
  moreover obtain v where "disambiguate_id interp from_global_id x = Inr v"
    using disambiguate_id_returns by blast
  ultimately show "\<exists>v. disambiguate_id interp from_global_id x = Inr v \<and>
      disambiguate_ids interp from_global_id x = Inr [v]"
    by (simp add: disambiguate_ids_def)
next
  assume "has_iter y"
  then have "disambiguate_ids interp from_global_id y =
      disambiguate_each interp from_global_id (py_iter y)"
    by (simp add: disambiguate_ids_def)
  then show "\<exists>vs. disambiguate_ids interp from_global_id y = Inr vs \<and>
      length vs = length (py_iter y) \<and>
      (\<forall>i<length (py_iter y).
         disambiguate_id interp from_global_id (py_iter y ! i) = Inr (vs ! i))"
    using disambiguate_each_returns [of interp from_global_id "py_iter y"] by simp
next
  assume a: "is_name_start c \<and> to_global_id (c # cs) local_id = Some token \<and>
    from_global_id (PStr token) = Inr (ty, PStr k)"
  then have "disambiguate_id interp from_global_id (PStr token) = Inr (PStr k)"
    using disambiguate_id_global_id by blast
  moreover have "disambiguate_id interp from_global_id (PInt 1) = Inr (PInt 1)"
    by (simp add: disambiguate_id_def)
  moreover have "disambiguate_id interp from_global_id (PStr (ascii ''2'')) = Inr (PInt 2)"
    by (simp add: disambiguate_id_def int_simps)
  ultimately show "disambiguate_ids interp from_global_id
      (PList [PInt 1, PStr (ascii ''2''), PStr token]) = Inr [PInt 1, PInt 2, PStr k]"
    by (simp add: disambiguate_ids_def)
qed

theorem disambiguate_ids_elementwise_witness:
  "\<not> has_iter (PInt 7) \<and>
   disambiguate_ids cpython (table_codec [(''VHlwZToz'', ''Type'', ''3'')]) (PInt 7) =
     Inr [PInt 7] \<and>
   has_iter (PList [PInt 1, PStr (ascii ''2''), PStr (ascii ''VHlwZToz'')]) \<and>
   is_name_start (ord CHR ''T'') \<and>
   to_global_id (ord CHR ''T'' # ascii ''ype'') (ascii ''3'') = Some (ascii ''VHlwZToz'') \<and>
   table_codec [(''VHlwZToz'', ''Type'', ''3'')] (PStr (ascii ''VHlwZToz'')) =
     Inr (PStr (ascii ''Type''), PStr (ascii ''3'')) \<and>
   disambiguate_ids cpython (table_codec [(''VHlwZToz'', ''Type'', ''3'')])
     (PList [PInt 1, PStr (ascii ''2''), PStr (ascii ''VHlwZToz'')]) =
     Inr [PInt 1, PInt 2, PStr (ascii ''3'')]"
proof -
  have s: "is_name_start (ord CHR ''T'')"
    by (simp add: is_name_start_def ord_def)
  have v: "disambiguate_id cpython (table_codec [(''VHlwZToz'', ''Type'', ''3'')]) (PInt 7) =
      Inr (PInt 7)"
    by (simp add: disambiguate_id_def)
  note inst = disambiguate_ids_elementwise [of "PInt 7" cpython
      "table_codec [(''VHlwZToz'', ''Type'', ''3'')]"
      "PList [PInt 1, PStr (ascii ''2''), PStr (ascii ''VHlwZToz'')]"
      "ord CHR ''T''" "ascii ''ype''" "ascii ''3''" "ascii ''VHlwZToz''"
      "PStr (ascii ''Type'')" "ascii ''3''"]
  show ?thesis
    using s v type_3_token type_3_decoded inst by simp
qed

text \<open>
  C7 as stated fails in its example: the token \<^verbatim>\<open>"VHlwZToz"\<close> encodes the type name "Type"
  and the local id 3, the codec decodes it to the strings "Type" and "3", and the list of
  1, \<^verbatim>\<open>"2"\<close> and that token gives 1, 2 and the string "3", which is not the integer 3.
\<close>

theorem disambiguate_ids_decoded_id_is_string:
  "to_global_id (ord CHR ''T'' # ascii ''ype'') (ascii ''3'') = Some (ascii ''VHlwZToz'') \<and>
   table_codec [(''VHlwZToz'', ''Type'', ''3'')] (PStr (ascii ''VHlwZToz'')) =
     Inr (PStr (ascii ''Type''), PStr (ascii ''3'')) \<and>
   disambiguate_ids cpython (table_codec [(''VHlwZToz'', ''Type'', ''3'')])
     (PList [PInt 1, PStr (ascii ''2''), PStr (ascii ''VHlwZToz'')]) =
     Inr [PInt 1, PInt 2, PStr (ascii ''3'')] \<and>
   disambiguate_ids cpython (table_codec [(''VHlwZToz'', ''Type'', ''3'')])
     (PList [PInt 1, PStr (ascii ''2''), PStr (ascii ''VHlwZToz'')]) \<noteq>
     Inr [PInt 1, PInt 2, PInt 3]"
proof -
  have s: "is_name_start (ord CHR ''T'')"
    by (simp add: is_name_start_def ord_def)
  have "disambiguate_id cpython (table_codec [(''VHlwZToz'', ''Type'', ''3'')])
      (PStr (ascii ''VHlwZToz'')) = Inr (PStr (ascii ''3''))"
    by (rule disambiguate_id_global_id
        [where from_global_id = "table_codec [(''VHlwZToz'', ''Type'', ''3'')]",
         OF s type_3_token type_3_decoded])
  moreover have "disambiguate_id cpython (table_codec [(''VHlwZToz'', ''Type'', ''3'')])
      (PInt 1) = Inr (PInt 1)"
    by (simp add: disambiguate_id_def)
  moreover have "disambiguate_id cpython (table_codec [(''VHlwZToz'', ''Type'', ''3'')])
      (PStr (ascii ''2'')) = Inr (PInt 2)"
    by (simp add: disambiguate_id_def int_simps)
  ultimately have "disambiguate_ids cpython (table_codec [(''VHlwZToz'', ''Type'', ''3'')])
      (PList [PInt 1, PStr (ascii ''2''), PStr (ascii ''VHlwZToz'')]) =
      Inr [PInt 1, PInt 2, PStr (ascii ''3'')]"
    by (simp add: disambiguate_ids_def)
  then show ?thesis
    using type_3_token type_3_decoded by simp
qed

text \<open>
  C10. A string has \<^verbatim>\<open>__iter__\<close>, so \<^verbatim>\<open>disambiguate_ids\<close> on a bare string token
  disambiguates its characters one by one: \<^verbatim>\<open>"12"\<close> gives the list of 1 and 2, not the
  list of 12.
\<close>

theorem disambiguate_ids_string_by_character:
  "has_iter (PStr s) \<and>
   disambiguate_ids interp from_global_id (PStr s) =
     disambiguate_each interp from_global_id (map (\<lambda>ch. PStr [ch]) s) \<and>
   disambiguate_ids interp from_global_id (PStr (ascii ''12'')) = Inr [PInt 1, PInt 2] \<and>
   disambiguate_ids interp from_global_id (PStr (ascii ''12'')) \<noteq> Inr [PInt 12]"
  by (simp add: disambiguate_ids_def disambiguate_id_def int_simps)

theorem disambiguate_ids_string_by_character_witness:
  "disambiguate_ids cpython (table_codec []) (PStr (ascii ''12'')) = Inr [PInt 1, PInt 2]"
  using disambiguate_ids_string_by_character [of "ascii ''12''" cpython "table_codec []"]
  by blast

section \<open>Properties of the nested-field shorthand\<close>

lemma nested_fields_loop_strings:
  "\<forall>el\<in>set xs. is_str el \<Longrightarrow>
   \<exists>r. nested_fields_loop xs res = Inr r \<and>
       map_of r = (\<lambda>k. if k \<in> set xs then Some (PList [PStr (ascii ''all'')]) else map_of res k) \<and>
       (distinct (map fst res) \<longrightarrow> distinct (map fst r))"
proof (induction xs arbitrary: res)
  case Nil
  show ?case by simp
next
  case (Cons x xs)
  let ?res = "AList.update x (PList [PStr (ascii ''all'')]) res"
  from Cons.prems have "\<forall>el\<in>set xs. is_str el" and x: "is_str x" by simp_all
  from Cons.IH [OF this(1), of ?res] obtain r where
    r: "nested_fields_loop xs ?res = Inr r"
       "map_of r = (\<lambda>k. if k \<in> set xs then Some (PList [PStr (ascii ''all'')]) else map_of ?res k)"
       "distinct (map fst ?res) \<longrightarrow> distinct (map fst r)"
    by blast
  have "nested_fields_loop (x # xs) res = Inr r" using x r(1) by simp
  moreover have "map_of r =
      (\<lambda>k. if k \<in> set (x # xs) then Some (PList [PStr (ascii ''all'')]) else map_of res k)"
    using r(2) by (auto simp: update_conv' fun_eq_iff)
  moreover have "distinct (map fst res) \<longrightarrow> distinct (map fst r)"
    using r(3) by (simp add: distinct_update)
  ultimately show ?case by blast
qed

lemma nested_fields_loop_strings_empty:
  "\<forall>el\<in>set xs. is_str el \<Longrightarrow>
   \<exists>r. nested_fields_loop xs [] = Inr r \<and>
       map_of r = (\<lambda>k. if k \<in> set xs then Some (PList [PStr (ascii ''all'')]) else None) \<and>
       distinct (map fst r)"
  using nested_fields_loop_strings [of xs "[]"] by (simp cong: if_cong)

lemma nested_fields_loop_first_non_string:
  "\<forall>p\<in>set pre. is_str p \<Longrightarrow> \<not> is_str el \<Longrightarrow>
   nested_fields_loop (pre @ el # post) res =
     Inl (ValueError (''Nested field iterable entry has to be a string. Got '' @ type_repr el))"
  by (induction pre arbitrary: res) simp_all

lemma distinct_alist_set:
  assumes "distinct (map fst r)" and "map_of r = (\<lambda>k. if k \<in> A then Some v else None)"
  shows "set r = (\<lambda>k. (k, v)) ` A"
proof (rule set_eqI)
  fix p :: "'a \<times> 'b"
  obtain k w where p: "p = (k, w)" by (cases p)
  have "(k, w) \<in> set r \<longleftrightarrow> map_of r k = Some w"
    using assms(1) by simp
  also have "\<dots> \<longleftrightarrow> k \<in> A \<and> w = v"
    using assms(2) by auto
  finally show "p \<in> set r \<longleftrightarrow> p \<in> (\<lambda>k. (k, v)) ` A"
    using p by auto
qed

text \<open>
  C6. \<^verbatim>\<open>overload_nested_fields\<close> maps \<^verbatim>\<open>None\<close> to the empty dict and a dict to itself. An
  iterable whose elements are all strings is mapped to a dict whose keys are those
  strings, each with the value \<^verbatim>\<open>["all"]\<close>. An iterable with an element that is not a
  string makes the call fail with a \<^verbatim>\<open>ValueError\<close> whose message names the type of the
  first such element. Any other argument is mapped to the empty dict.
\<close>

theorem overload_nested_fields_cases:
  "overload_nested_fields PNone = Inr (PDict []) \<and>
   overload_nested_fields (PDict d) = Inr (PDict d) \<and>
   (has_iter x \<and> \<not> is_dict x \<and> (\<forall>el\<in>set (py_iter x). is_str el) \<longrightarrow>
      (\<exists>result. overload_nested_fields x = Inr (PDict result) \<and>
         distinct (map fst result) \<and>
         set result = (\<lambda>el. (el, PList [PStr (ascii ''all'')])) ` set (py_iter x))) \<and>
   (has_iter y \<and> \<not> is_dict y \<and> py_iter y = pre @ el # post \<and>
      (\<forall>p\<in>set pre. is_str p) \<and> \<not> is_str el \<longrightarrow>
      overload_nested_fields y =
        Inl (ValueError
          (''Nested field iterable entry has to be a string. Got '' @ type_repr el))) \<and>
   (z \<noteq> PNone \<and> \<not> has_iter z \<longrightarrow> overload_nested_fields z = Inr (PDict []))"
proof (intro conjI impI)
  show "overload_nested_fields PNone = Inr (PDict [])"
    by (simp add: overload_nested_fields_def)
  show "overload_nested_fields (PDict d) = Inr (PDict d)"
    by (simp add: overload_nested_fields_def)
next
  assume a: "has_iter x \<and> \<not> is_dict x \<and> (\<forall>el\<in>set (py_iter x). is_str el)"
  then have nn: "x \<noteq> PNone" by auto
  from a have "\<forall>el\<in>set (py_iter x). is_str el" by simp
  from nested_fields_loop_strings_empty [OF this] obtain r where
    r: "nested_fields_loop (py_iter x) [] = Inr r"
       "map_of r = (\<lambda>k. if k \<in> set (py_iter x) then Some (PList [PStr (ascii ''all'')]) else None)"
       "distinct (map fst r)"
    by (elim exE conjE)
  have "overload_nested_fields x = Inr (PDict r)"
    using a nn r(1) by (simp add: overload_nested_fields_def)
  moreover have "set r = (\<lambda>el. (el, PList [PStr (ascii ''all'')])) ` set (py_iter x)"
    using distinct_alist_set [OF r(3) r(2)] .
  ultimately show "\<exists>result. overload_nested_fields x = Inr (PDict result) \<and>
      distinct (map fst result) \<and>
      set result = (\<lambda>el. (el, PList [PStr (ascii ''all'')])) ` set (py_iter x)"
    using r(3) by blast
next
  assume a: "has_iter y \<and> \<not> is_dict y \<and> py_iter y = pre @ el # post \<and>
      (\<forall>p\<in>set pre. is_str p) \<and> \<not> is_str el"
  then have nn: "y \<noteq> PNone" by auto
  from a have "nested_fields_loop (py_iter y) [] =
      Inl (ValueError (''Nested field iterable entry has to be a string. Got '' @ type_repr el))"
    using nested_fields_loop_first_non_string [of pre el post "[]"] by simp
  then show "overload_nested_fields y =
      Inl (ValueError (''Nested field iterable entry has to be a string. Got '' @ type_repr el))"
    using a nn by (simp add: overload_nested_fields_def)
next
  assume a: "z \<noteq> PNone \<and> \<not> has_iter z"
  then have "\<not> is_dict z" by (cases z) auto
  then show "overload_nested_fields z = Inr (PDict [])"
    using a by (simp add: overload_nested_fields_def)
qed

theorem overload_nested_fields_cases_witness:
  "overload_nested_fields PNone = Inr (PDict []) \<and>
   overload_nested_fields (PDict [(PStr (ascii ''a''), PList [PStr (ascii ''x'')])]) =
     Inr (PDict [(PStr (ascii ''a''), PList [PStr (ascii ''x'')])]) \<and>
   overload_nested_fields (PList [PStr (ascii ''a''), PStr (ascii ''b'')]) =
     Inr (PDict [(PStr (ascii ''a''), PList [PStr (ascii ''all'')]), (PStr (ascii ''b''), PList [PStr (ascii ''all'')])]) \<and>
   overload_nested_fields (PList [PInt 1]) =
     Inl (ValueError
       (''Nested field iterable entry has to be a string. Got <class '' @ quoted ''int'' @ ''>'')) \<and>
   overload_nested_fields (PInt 5) = Inr (PDict [])"
proof -
  have x: "has_iter (PList [PStr (ascii ''a''), PStr (ascii ''b'')]) \<and> \<not> is_dict (PList [PStr (ascii ''a''), PStr (ascii ''b'')]) \<and>
      (\<forall>el\<in>set (py_iter (PList [PStr (ascii ''a''), PStr (ascii ''b'')])). is_str el)"
    by simp
  have y: "has_iter (PList [PInt 1]) \<and> \<not> is_dict (PList [PInt 1]) \<and>
      py_iter (PList [PInt 1]) = [] @ PInt 1 # [] \<and> (\<forall>p\<in>set []. is_str p) \<and> \<not> is_str (PInt 1)"
    by simp
  have z: "PInt 5 \<noteq> PNone \<and> \<not> has_iter (PInt 5)"
    by simp
  have r: "overload_nested_fields (PList [PStr (ascii ''a''), PStr (ascii ''b'')]) =
      Inr (PDict [(PStr (ascii ''a''), PList [PStr (ascii ''all'')]), (PStr (ascii ''b''), PList [PStr (ascii ''all'')])])"
    by (simp add: overload_nested_fields_def ascii_def ord_def)
  show ?thesis
    using x y z r
      overload_nested_fields_cases [of "[(PStr (ascii ''a''), PList [PStr (ascii ''x'')])]"
        "PList [PStr (ascii ''a''), PStr (ascii ''b'')]" "PList [PInt 1]" "[]" "PInt 1" "[]" "PInt 5"]
    by (simp add: type_repr_def)
qed

section \<open>Properties of the extras field names\<close>

lemma extra_names_of_entry_eq:
  "extra_names_of_entry name extra res =
     res @ map (\<lambda>(extra_name, data). if extra_name = ''exact'' then name
                                      else name @ ''_'' @ extra_name) extra"
  by (induction extra arbitrary: res) (auto split: prod.splits)

lemma extra_names_of_entries_eq:
  "extra_names_of_entries extras res =
     res @ concat (map (\<lambda>(name, extra).
        map (\<lambda>(extra_name, data). if extra_name = ''exact'' then name
                                   else name @ ''_'' @ extra_name) extra) extras)"
  by (induction extras arbitrary: res) (auto simp: extra_names_of_entry_eq)

text \<open>
  C3 (as amended). \<^verbatim>\<open>get_m2m_all_extras_field_names\<close> returns, in the order of the
  configuration, the field name for an "exact" operation and the field name, an
  underscore and the operation for every other operation.
  \<^verbatim>\<open>get_fk_all_extras_field_names\<close> returns the field names of the configuration only, one
  for each field, whatever operations the field declares.
\<close>

theorem all_extras_field_names:
  "get_m2m_all_extras_field_names extras =
     concat (map (\<lambda>(name, extra).
        map (\<lambda>(extra_name, data). if extra_name = ''exact'' then name
                                   else name @ ''_'' @ extra_name) extra) (or_empty extras)) \<and>
   get_fk_all_extras_field_names extras = map fst (or_empty extras)"
  by (simp add: get_m2m_all_extras_field_names_def get_fk_all_extras_field_names_def
      extra_names_of_entries_eq)

theorem all_extras_field_names_witness:
  "get_m2m_all_extras_field_names
     (Some [(''tags'', [(''exact'', PBool True), (''add'', PBool True)]), (''pets'', [])]) =
     [''tags'', ''tags_add''] \<and>
   get_fk_all_extras_field_names
     (Some [(''tags'', [(''exact'', PBool True), (''add'', PBool True)]), (''pets'', [])]) =
     [''tags'', ''pets'']"
  using all_extras_field_names
    [of "Some [(''tags'', [(''exact'', PBool True), (''add'', PBool True)]), (''pets'', [])]"]
  by (simp add: or_empty_def)

text \<open>
  C3 as stated fails for the foreign-key variant: for the configuration that declares the
  operation "add" on the field "parent", the many-to-many variant returns "parent_add",
  the foreign-key variant returns "parent".
\<close>

theorem fk_extras_field_names_are_keys:
  "get_m2m_all_extras_field_names (Some [(''parent'', [(''add'', PBool True)])]) =
     [''parent_add''] \<and>
   get_fk_all_extras_field_names (Some [(''parent'', [(''add'', PBool True)])]) =
     [''parent''] \<and>
   get_fk_all_extras_field_names (Some [(''parent'', [(''add'', PBool True)])]) \<noteq>
     [''parent_add'']"
  by (simp add: get_m2m_all_extras_field_names_def get_fk_all_extras_field_names_def
      or_empty_def)

section \<open>Properties of the two loops of the builder\<close>

subsection \<open>The loop over the reflected fields\<close>

lemma is_skipped_iff:
  "is_skipped only_fields exclude_fields name \<longleftrightarrow>
     (only_fields \<noteq> [] \<and> name \<notin> set only_fields) \<or> name \<in> set exclude_fields \<or>
     endswith_plus name"
  by (simp add: is_skipped_def)

lemma convert_model_fields_primary_key:
  "getattr_primary_key field \<Longrightarrow>
   convert_model_fields conv only_fields exclude_fields optional_fields required_fields
     m2m fk ((name, field) # rest) (fields, fields_lookup) =
   convert_model_fields conv only_fields exclude_fields optional_fields required_fields
     m2m fk rest (fields, fields_lookup)"
  by simp

lemma convert_model_fields_skipped:
  "\<not> getattr_primary_key field \<Longrightarrow> is_skipped only_fields exclude_fields name \<Longrightarrow>
   convert_model_fields conv only_fields exclude_fields optional_fields required_fields
     m2m fk ((name, field) # rest) (fields, fields_lookup) =
   convert_model_fields conv only_fields exclude_fields optional_fields required_fields
     m2m fk rest (fields, fields_lookup(name \<mapsto> field))"
  by (simp add: Let_def)

lemma convert_model_fields_converted:
  "\<not> getattr_primary_key field \<Longrightarrow> \<not> is_skipped only_fields exclude_fields name \<Longrightarrow>
   convert_model_fields conv only_fields exclude_fields optional_fields required_fields
     m2m fk ((name, field) # rest) (fields, fields_lookup) =
   convert_model_fields conv only_fields exclude_fields optional_fields required_fields
     m2m fk rest
     (AList.update name
        (conv field
           (if name \<in> set optional_fields then Some False
            else if name \<in> set required_fields then Some True else None)
           (get_exact m2m name) (get_fk fk name)) fields,
      fields_lookup(name \<mapsto> field))"
  by (simp add: Let_def)

lemma convert_model_fields_keys:
  "fst ` set (fst (convert_model_fields conv only_fields exclude_fields optional_fields
     required_fields m2m fk mf (fields, fields_lookup))) =
   fst ` set fields \<union>
     {name. \<exists>field. (name, field) \<in> set mf \<and> \<not> getattr_primary_key field \<and>
        \<not> is_skipped only_fields exclude_fields name}"
proof (induction mf arbitrary: fields fields_lookup)
  case Nil
  show ?case by simp
next
  case (Cons p mf)
  obtain name field where p: "p = (name, field)" by (cases p)
  let ?K = "\<lambda>l. {name. \<exists>field. (name, field) \<in> set l \<and> \<not> getattr_primary_key field \<and>
      \<not> is_skipped only_fields exclude_fields name}"
  consider (pk) "getattr_primary_key field"
    | (skip) "\<not> getattr_primary_key field" "is_skipped only_fields exclude_fields name"
    | (conv) "\<not> getattr_primary_key field" "\<not> is_skipped only_fields exclude_fields name"
    by blast
  then show ?case
  proof cases
    case pk
    then have "?K (p # mf) = ?K mf" using p by auto
    then show ?thesis
      unfolding p convert_model_fields_primary_key [OF pk] Cons.IH by simp
  next
    case skip
    then have "?K (p # mf) = ?K mf" using p by auto
    then show ?thesis
      unfolding p convert_model_fields_skipped [OF skip] Cons.IH by simp
  next
    case conv
    then have "?K (p # mf) = insert name (?K mf)" using p by auto
    then show ?thesis
      unfolding p convert_model_fields_converted [OF conv] Cons.IH
      by (simp add: dom_update)
  qed
qed

lemma convert_model_fields_lookup:
  "dom (snd (convert_model_fields conv only_fields exclude_fields optional_fields
     required_fields m2m fk mf (fields, fields_lookup))) =
   dom fields_lookup \<union>
     {name. \<exists>field. (name, field) \<in> set mf \<and> \<not> getattr_primary_key field}"
proof (induction mf arbitrary: fields fields_lookup)
  case Nil
  show ?case by simp
next
  case (Cons p mf)
  obtain name field where p: "p = (name, field)" by (cases p)
  let ?L = "\<lambda>l. {name. \<exists>field. (name, field) \<in> set l \<and> \<not> getattr_primary_key field}"
  consider (pk) "getattr_primary_key field"
    | (skip) "\<not> getattr_primary_key field" "is_skipped only_fields exclude_fields name"
    | (conv) "\<not> getattr_primary_key field" "\<not> is_skipped only_fields exclude_fields name"
    by blast
  then show ?case
  proof cases
    case pk
    then have "?L (p # mf) = ?L mf" using p by auto
    then show ?thesis
      unfolding p convert_model_fields_primary_key [OF pk] Cons.IH by simp
  next
    case skip
    then have "?L (p # mf) = insert name (?L mf)" using p by auto
    then show ?thesis
      unfolding p convert_model_fields_skipped [OF skip] Cons.IH by simp
  next
    case conv
    then have "?L (p # mf) = insert name (?L mf)" using p by auto
    then show ?thesis
      unfolding p convert_model_fields_converted [OF conv] Cons.IH by simp
  qed
qed

lemma convert_model_fields_other:
  "name \<notin> fst ` set mf \<Longrightarrow>
   map_of (fst (convert_model_fields conv only_fields exclude_fields optional_fields
     required_fields m2m fk mf (fields, fields_lookup))) name = map_of fields name"
proof (induction mf arbitrary: fields fields_lookup)
  case Nil
  show ?case by simp
next
  case (Cons p mf)
  obtain n f where p: "p = (n, f)" by (cases p)
  with Cons.prems have ne: "n \<noteq> name" and rest: "name \<notin> fst ` set mf" by auto
  show ?case
    using Cons.IH [OF rest] ne p by (simp add: Let_def update_conv')
qed

lemma convert_model_fields_value:
  "distinct (map fst mf) \<Longrightarrow> (name, field) \<in> set mf \<Longrightarrow> \<not> getattr_primary_key field \<Longrightarrow>
   \<not> is_skipped only_fields exclude_fields name \<Longrightarrow>
   map_of (fst (convert_model_fields conv only_fields exclude_fields optional_fields
     required_fields m2m fk mf (fields, fields_lookup))) name =
   Some (conv field
     (if name \<in> set optional_fields then Some False
      else if name \<in> set required_fields then Some True else None)
     (get_exact m2m name) (get_fk fk name))"
proof (induction mf arbitrary: fields fields_lookup)
  case Nil
  then show ?case by simp
next
  case (Cons p mf)
  obtain n f where p: "p = (n, f)" by (cases p)
  show ?case
  proof (cases "(name, field) = p")
    case True
    then have nf: "p = (name, field)" by simp
    from Cons.prems(1) nf have "name \<notin> fst ` set mf" by simp
    note other = convert_model_fields_other [OF this]
    note step = convert_model_fields_converted [OF Cons.prems(3) Cons.prems(4)]
    show ?thesis
      unfolding nf step other by (simp add: update_conv')
  next
    case False
    with Cons.prems(2) have mem: "(name, field) \<in> set mf" by simp
    from Cons.prems(1) have d: "distinct (map fst mf)" by simp
    note ih = Cons.IH [OF d mem Cons.prems(3) Cons.prems(4)]
    show ?thesis using ih p by (simp add: Let_def)
  qed
qed

subsection \<open>The loops over the extras\<close>

lemma add_extra_operations_keys:
  "add_extra_operations conv_m2m name field ex fields = Inr fields' \<Longrightarrow>
   fst ` set fields' = fst ` set fields \<union>
     {name @ ''_'' @ op | op data. (op, data) \<in> set ex \<and> op \<noteq> ''exact''} \<and>
   (\<forall>k. k \<notin> {name @ ''_'' @ op | op data. (op, data) \<in> set ex \<and> op \<noteq> ''exact''} \<longrightarrow>
      map_of fields' k = map_of fields k)"
proof (induction ex arbitrary: fields)
  case Nil
  then show ?case by simp
next
  case (Cons p ex)
  obtain op data where p: "p = (op, data)" by (cases p)
  show ?case
  proof (cases "op = ''exact''")
    case True
    with Cons.prems p have "add_extra_operations conv_m2m name field ex fields = Inr fields'"
      by simp
    moreover have "{name @ ''_'' @ op | op data. (op, data) \<in> set (p # ex) \<and> op \<noteq> ''exact''} =
        {name @ ''_'' @ op | op data. (op, data) \<in> set ex \<and> op \<noteq> ''exact''}"
      using True p by auto
    ultimately show ?thesis using Cons.IH by simp
  next
    case False
    from False Cons.prems p obtain v where
      step: "add_extra_operations conv_m2m name field ex
        (AList.update (name @ ''_'' @ op) v fields) = Inr fields'"
      by (auto simp: Let_def split: if_splits option.splits sum.splits)
    from Cons.IH [OF step] have
      keys: "fst ` set fields' = fst ` set (AList.update (name @ ''_'' @ op) v fields) \<union>
        {name @ ''_'' @ op | op data. (op, data) \<in> set ex \<and> op \<noteq> ''exact''}" and
      vals: "\<forall>k. k \<notin> {name @ ''_'' @ op | op data. (op, data) \<in> set ex \<and> op \<noteq> ''exact''} \<longrightarrow>
        map_of fields' k = map_of (AList.update (name @ ''_'' @ op) v fields) k"
      by blast+
    have eq: "{name @ ''_'' @ op | op data. (op, data) \<in> set (p # ex) \<and> op \<noteq> ''exact''} =
        insert (name @ ''_'' @ op)
          {name @ ''_'' @ op | op data. (op, data) \<in> set ex \<and> op \<noteq> ''exact''}"
      using False p by auto
    have "fst ` set fields' = fst ` set fields \<union>
        {name @ ''_'' @ op | op data. (op, data) \<in> set (p # ex) \<and> op \<noteq> ''exact''}"
      unfolding eq using keys by (simp add: dom_update)
    moreover have "\<forall>k. k \<notin> {name @ ''_'' @ op | op data. (op, data) \<in> set (p # ex) \<and>
        op \<noteq> ''exact''} \<longrightarrow> map_of fields' k = map_of fields k"
      unfolding eq using vals by (simp add: update_conv')
    ultimately show ?thesis by blast
  qed
qed

lemma add_many_to_many_extras_keys:
  "add_many_to_many_extras conv_m2m model_repr fields_lookup exs fields = Inr fields' \<Longrightarrow>
   fst ` set fields' = fst ` set fields \<union>
     {name @ ''_'' @ op | name ex op data.
        (name, ex) \<in> set exs \<and> (op, data) \<in> set ex \<and> op \<noteq> ''exact''} \<and>
   (\<forall>k. k \<notin> {name @ ''_'' @ op | name ex op data.
        (name, ex) \<in> set exs \<and> (op, data) \<in> set ex \<and> op \<noteq> ''exact''} \<longrightarrow>
      map_of fields' k = map_of fields k) \<and>
   (\<forall>name ex. (name, ex) \<in> set exs \<longrightarrow> name \<in> dom fields_lookup)"
proof (induction exs arbitrary: fields)
  case Nil
  then show ?case by simp
next
  case (Cons p exs)
  obtain name ex where p: "p = (name, ex)" by (cases p)
  let ?I = "{name @ ''_'' @ op | op data. (op, data) \<in> set ex \<and> op \<noteq> ''exact''}"
  let ?O = "\<lambda>l. {name @ ''_'' @ op | name ex op data.
        (name, ex) \<in> set l \<and> (op, data) \<in> set ex \<and> op \<noteq> ''exact''}"
  from Cons.prems p obtain field fields1 where
    look: "fields_lookup name = Some field" and
    inner: "add_extra_operations conv_m2m name field ex fields = Inr fields1" and
    rest: "add_many_to_many_extras conv_m2m model_repr fields_lookup exs fields1 = Inr fields'"
    by (auto split: option.splits sum.splits)
  from add_extra_operations_keys [OF inner] have
    i1: "fst ` set fields1 = fst ` set fields \<union> ?I" and
    i2: "\<forall>k. k \<notin> ?I \<longrightarrow> map_of fields1 k = map_of fields k"
    by blast+
  from Cons.IH [OF rest] have
    r1: "fst ` set fields' = fst ` set fields1 \<union> ?O exs" and
    r2: "\<forall>k. k \<notin> ?O exs \<longrightarrow> map_of fields' k = map_of fields1 k" and
    r3: "\<forall>name ex. (name, ex) \<in> set exs \<longrightarrow> name \<in> dom fields_lookup"
    by blast+
  have eq: "?O (p # exs) = ?I \<union> ?O exs"
    unfolding p by (rule set_eqI) (simp, blast)
  have "fst ` set fields' = fst ` set fields \<union> ?O (p # exs)"
    unfolding eq r1 i1 by blast
  moreover have "\<forall>k. k \<notin> ?O (p # exs) \<longrightarrow> map_of fields' k = map_of fields k"
    unfolding eq using i2 r2 by simp
  moreover have "\<forall>name ex. (name, ex) \<in> set (p # exs) \<longrightarrow> name \<in> dom fields_lookup"
    using r3 look p by auto
  ultimately show ?case by blast
qed

lemma getitem_present:
  "name \<in> fst ` set fields \<Longrightarrow> \<exists>v. getitem fields name = Inr v"
proof -
  assume "name \<in> fst ` set fields"
  then have "map_of fields name \<noteq> None" by (simp add: map_of_eq_None_iff)
  then show ?thesis by (auto simp: getitem_def)
qed

lemma add_extra_operations_returns:
  "name \<in> fst ` set fields \<Longrightarrow>
   \<forall>op data. (op, data) \<in> set ex \<longrightarrow> is_bool data \<or> is_dict data \<Longrightarrow>
   \<exists>fields'. add_extra_operations conv_m2m name field ex fields = Inr fields'"
proof (induction ex arbitrary: fields)
  case Nil
  show ?case by simp
next
  case (Cons p ex)
  obtain op data where p: "p = (op, data)" by (cases p)
  from Cons.prems(2) have typed: "\<forall>op data. (op, data) \<in> set ex \<longrightarrow> is_bool data \<or> is_dict data"
    by simp
  show ?case
  proof (cases "op = ''exact''")
    case True
    then show ?thesis using Cons.IH [OF Cons.prems(1) typed] p by simp
  next
    case False
    from Cons.prems(2) p have d: "is_dict (if is_bool data then PDict [] else data)"
      by auto
    have grow: "name \<in> fst ` set (AList.update k v fields)" for k v
      using Cons.prems(1) by (simp add: dom_update)
    show ?thesis
    proof (cases "conv_m2m field False (if is_bool data then PDict [] else data)")
      case (Some t)
      then show ?thesis
        using Cons.IH [OF grow typed] False p d by (simp add: Let_def)
    next
      case None
      from getitem_present [OF Cons.prems(1)] obtain v where "getitem fields name = Inr v"
        by blast
      then show ?thesis
        using Cons.IH [OF grow typed] None False p d by (simp add: Let_def)
    qed
  qed
qed

lemma add_many_to_many_extras_returns:
  "\<forall>name ex. (name, ex) \<in> set exs \<longrightarrow> name \<in> dom fields_lookup \<and> name \<in> fst ` set fields \<and>
      (\<forall>op data. (op, data) \<in> set ex \<longrightarrow> is_bool data \<or> is_dict data) \<Longrightarrow>
   \<exists>fields'. add_many_to_many_extras conv_m2m model_repr fields_lookup exs fields = Inr fields'"
proof (induction exs arbitrary: fields)
  case Nil
  show ?case by simp
next
  case (Cons p exs)
  obtain name ex where p: "p = (name, ex)" by (cases p)
  have "(name, ex) \<in> set (p # exs)" using p by simp
  with Cons.prems have head: "name \<in> dom fields_lookup" "name \<in> fst ` set fields"
    "\<forall>op data. (op, data) \<in> set ex \<longrightarrow> is_bool data \<or> is_dict data"
    by blast+
  from head(1) obtain field where look: "fields_lookup name = Some field"
    by blast
  from add_extra_operations_returns [OF head(2) head(3)] obtain fields1 where
    inner: "add_extra_operations conv_m2m name field ex fields = Inr fields1"
    by blast
  from add_extra_operations_keys [OF inner] have "fst ` set fields \<subseteq> fst ` set fields1"
    by blast
  with Cons.prems have "\<forall>name ex. (name, ex) \<in> set exs \<longrightarrow>
      name \<in> dom fields_lookup \<and> name \<in> fst ` set fields1 \<and>
      (\<forall>op data. (op, data) \<in> set ex \<longrightarrow> is_bool data \<or> is_dict data)"
    by auto
  from Cons.IH [OF this] show ?case using look inner p by simp
qed

lemma add_many_to_many_extras_first_missing:
  "\<forall>n e. (n, e) \<in> set pre \<longrightarrow> n \<in> dom fields_lookup \<and> n \<in> fst ` set fields \<and>
      (\<forall>op data. (op, data) \<in> set e \<longrightarrow> is_bool data \<or> is_dict data) \<Longrightarrow>
   fields_lookup name = None \<Longrightarrow>
   add_many_to_many_extras conv_m2m model_repr fields_lookup (pre @ (name, ex) # post) fields =
     Inl (GraphQLError (missing_field_message name model_repr))"
proof (induction pre arbitrary: fields)
  case Nil
  then show ?case by simp
next
  case (Cons p pre)
  obtain n e where p: "p = (n, e)" by (cases p)
  have "(n, e) \<in> set (p # pre)" using p by simp
  with Cons.prems(1) have head: "n \<in> dom fields_lookup" "n \<in> fst ` set fields"
    "\<forall>op data. (op, data) \<in> set e \<longrightarrow> is_bool data \<or> is_dict data"
    by blast+
  from head(1) obtain field where look: "fields_lookup n = Some field"
    by blast
  from add_extra_operations_returns [OF head(2) head(3)] obtain fields1 where
    inner: "add_extra_operations conv_m2m n field e fields = Inr fields1"
    by blast
  from add_extra_operations_keys [OF inner] have "fst ` set fields \<subseteq> fst ` set fields1"
    by blast
  with Cons.prems(1) have "\<forall>n e. (n, e) \<in> set pre \<longrightarrow>
      n \<in> dom fields_lookup \<and> n \<in> fst ` set fields1 \<and>
      (\<forall>op data. (op, data) \<in> set e \<longrightarrow> is_bool data \<or> is_dict data)"
    by auto
  from Cons.IH [OF this Cons.prems(2)] show ?case using look inner p by simp
qed

lemma add_many_to_many_extras_missing:
  "(name, ex) \<in> set exs \<Longrightarrow> fields_lookup name = None \<Longrightarrow>
   \<exists>e. add_many_to_many_extras conv_m2m model_repr fields_lookup exs fields = Inl e"
proof (induction exs arbitrary: fields)
  case Nil
  then show ?case by simp
next
  case (Cons p exs)
  obtain n e where p: "p = (n, e)" by (cases p)
  show ?case
  proof (cases "fields_lookup n")
    case None
    then show ?thesis using p by simp
  next
    case (Some field)
    with Cons.prems p have mem: "(name, ex) \<in> set exs" by auto
    show ?thesis
    proof (cases "add_extra_operations conv_m2m n field e fields")
      case (Inl err)
      then show ?thesis using Some p by simp
    next
      case (Inr fields1)
      then show ?thesis using Cons.IH [OF mem Cons.prems(2)] Some p by simp
    qed
  qed
qed

subsection \<open>The builder as the composition of its loops\<close>

lemma get_input_fields_for_model_unfold:
  "get_input_fields_for_model conv conv_m2m model only_fields exclude_fields optional_fields
     required_fields m2m fk =
   add_many_to_many_extras conv_m2m (model_str model)
     (snd (convert_model_fields conv only_fields exclude_fields optional_fields required_fields
        (or_empty m2m) (or_empty fk) (get_model_fields model) ([], Map.empty)))
     (or_empty m2m)
     (fst (convert_model_fields conv only_fields exclude_fields optional_fields required_fields
        (or_empty m2m) (or_empty fk) (get_model_fields model) ([], Map.empty)))"
  by (simp add: get_input_fields_for_model_def Let_def case_prod_beta)

lemma base_keys:
  "fst ` set (fst (convert_model_fields conv only_fields exclude_fields optional_fields
     required_fields m2m fk mf ([], Map.empty))) =
   {name. \<exists>field. (name, field) \<in> set mf \<and> \<not> getattr_primary_key field \<and>
      \<not> is_skipped only_fields exclude_fields name}"
  using convert_model_fields_keys [of conv only_fields exclude_fields optional_fields
      required_fields m2m fk mf "[]" Map.empty]
  by simp

lemma base_lookup:
  "dom (snd (convert_model_fields conv only_fields exclude_fields optional_fields
     required_fields m2m fk mf ([], Map.empty))) =
   {name. \<exists>field. (name, field) \<in> set mf \<and> \<not> getattr_primary_key field}"
  using convert_model_fields_lookup [of conv only_fields exclude_fields optional_fields
      required_fields m2m fk mf "[]" Map.empty]
  by simp

lemmas builder_simps = get_input_fields_for_model_def Let_def or_empty_def
  getattr_primary_key_def is_skipped_def endswith_plus_def get_exact_def get_fk_def
  getitem_def missing_field_message_def class_converter_def list_m2m_converter_def
  nothing_m2m_converter_def required_converter_def

section \<open>Properties of \<^verbatim>\<open>get_input_fields_for_model\<close>\<close>

text \<open>
  C2 (as amended). Every key of the mapping that \<^verbatim>\<open>get_input_fields_for_model\<close> returns
  is the name of a reflected field that is not the primary key and was not skipped by
  the only/exclude/no-backref test, or it is the name of a reflected field that is not
  the primary key (skipped or not), an underscore and an operation other than "exact"
  that \<^verbatim>\<open>many_to_many_extras\<close> declares for that field.
\<close>

theorem input_field_keys:
  assumes "get_input_fields_for_model conv conv_m2m model only_fields exclude_fields
      optional_fields required_fields many_to_many_extras foreign_key_extras = Inr fields"
    and "key \<in> fst ` set fields"
  shows "(\<exists>field. (key, field) \<in> set (get_model_fields model) \<and>
            \<not> getattr_primary_key field \<and> \<not> is_skipped only_fields exclude_fields key) \<or>
         (\<exists>name field ex op data.
            (name, field) \<in> set (get_model_fields model) \<and> \<not> getattr_primary_key field \<and>
            (name, ex) \<in> set (or_empty many_to_many_extras) \<and> (op, data) \<in> set ex \<and>
            op \<noteq> ''exact'' \<and> key = name @ ''_'' @ op)"
proof -
  let ?B = "convert_model_fields conv only_fields exclude_fields optional_fields
      required_fields (or_empty many_to_many_extras) (or_empty foreign_key_extras)
      (get_model_fields model) ([], Map.empty)"
  from assms(1) have run: "add_many_to_many_extras conv_m2m (model_str model) (snd ?B)
      (or_empty many_to_many_extras) (fst ?B) = Inr fields"
    by (simp add: get_input_fields_for_model_unfold)
  from add_many_to_many_extras_keys [OF run] have
    keys: "fst ` set fields = fst ` set (fst ?B) \<union>
      {name @ ''_'' @ op | name ex op data.
        (name, ex) \<in> set (or_empty many_to_many_extras) \<and> (op, data) \<in> set ex \<and>
        op \<noteq> ''exact''}" and
    known: "\<forall>name ex. (name, ex) \<in> set (or_empty many_to_many_extras) \<longrightarrow>
      name \<in> dom (snd ?B)"
    by blast+
  from assms(2) keys consider
    (base) "key \<in> fst ` set (fst ?B)"
    | (extra) name ex op data where "(name, ex) \<in> set (or_empty many_to_many_extras)"
        "(op, data) \<in> set ex" "op \<noteq> ''exact''" "key = name @ ''_'' @ op"
    by blast
  then show ?thesis
  proof cases
    case base
    then show ?thesis unfolding base_keys by blast
  next
    case extra
    from known extra(1) have "name \<in> dom (snd ?B)" by blast
    then obtain field where "(name, field) \<in> set (get_model_fields model)"
      "\<not> getattr_primary_key field"
      unfolding base_lookup by blast
    with extra show ?thesis by blast
  qed
qed

theorem input_field_keys_witness:
  "get_input_fields_for_model class_converter list_m2m_converter
     (DjangoModel ''Pet''
        [(''id'', DjangoField ''AutoField'' (Some True)),
         (''name'', DjangoField ''CharField'' (Some False)),
         (''parent'', DjangoField ''ForeignKey'' (Some False))])
     [] [] [] [] None None =
     Inr [(''name'', Some ''CharField''), (''parent'', Some ''ForeignKey'')] \<and>
   ''parent'' \<in> fst ` set [(''name'', Some ''CharField''), (''parent'', Some ''ForeignKey'')] \<and>
   (''parent'', DjangoField ''ForeignKey'' (Some False)) \<in> set (get_model_fields
     (DjangoModel ''Pet''
        [(''id'', DjangoField ''AutoField'' (Some True)),
         (''name'', DjangoField ''CharField'' (Some False)),
         (''parent'', DjangoField ''ForeignKey'' (Some False))])) \<and>
   \<not> getattr_primary_key (DjangoField ''ForeignKey'' (Some False)) \<and>
   \<not> is_skipped [] [] ''parent''"
proof -
  have run: "get_input_fields_for_model class_converter list_m2m_converter
     (DjangoModel ''Pet''
        [(''id'', DjangoField ''AutoField'' (Some True)),
         (''name'', DjangoField ''CharField'' (Some False)),
         (''parent'', DjangoField ''ForeignKey'' (Some False))])
     [] [] [] [] None None =
     Inr [(''name'', Some ''CharField''), (''parent'', Some ''ForeignKey'')]"
    by (simp add: builder_simps)
  have key: "''parent'' \<in> fst ` set [(''name'', Some ''CharField''), (''parent'', Some ''ForeignKey'')]"
    by simp
  show ?thesis
    using run key input_field_keys [OF run key]
    by (simp add: getattr_primary_key_def is_skipped_def endswith_plus_def)
qed

text \<open>
  C2 as stated fails: the field "tags" is excluded, so it did not pass the filtering, yet
  the operation "add" declared for it puts the key "tags_add" into the mapping.
\<close>

theorem input_field_key_of_excluded_field:
  "is_skipped [] [''tags''] ''tags'' \<and>
   get_input_fields_for_model class_converter list_m2m_converter
     (DjangoModel ''Pet'' [(''tags'', DjangoField ''ManyToManyField'' (Some False))])
     [] [''tags''] [] [] (Some [(''tags'', [(''add'', PBool True)])]) None =
     Inr [(''tags_add'', Some ''List of ManyToManyField'')]"
  by (simp add: builder_simps)

text \<open>
  C5 (as amended). If some entry of \<^verbatim>\<open>many_to_many_extras\<close> names no reflected field
  other than the primary key, \<^verbatim>\<open>get_input_fields_for_model\<close> returns no mapping; when
  every entry before the first such entry names a field that was not skipped and gives
  each of its operations a boolean or a dict, the failure is the schema error that names
  that field and the model. Whenever the call returns a mapping, every declared
  operation other than "exact" of every entry has its key, the field name, an underscore
  and the operation, in the mapping, and the entry names a reflected field that is not
  the primary key. The call does return when every entry names a field that was not
  skipped and gives each of its operations a boolean or a dict.
\<close>

theorem many_to_many_extras_outcome:
  "((name, ex) \<in> set (or_empty many_to_many_extras) \<and>
    \<not> (\<exists>field. (name, field) \<in> set (get_model_fields model) \<and> \<not> getattr_primary_key field) \<longrightarrow>
      (\<exists>e. get_input_fields_for_model conv conv_m2m model only_fields exclude_fields
         optional_fields required_fields many_to_many_extras foreign_key_extras = Inl e)) \<and>
   (or_empty many_to_many_extras = pre @ (name, ex) # post \<and>
    (\<forall>n e. (n, e) \<in> set pre \<longrightarrow>
       (\<exists>field. (n, field) \<in> set (get_model_fields model) \<and> \<not> getattr_primary_key field \<and>
          \<not> is_skipped only_fields exclude_fields n) \<and>
       (\<forall>op data. (op, data) \<in> set e \<longrightarrow> is_bool data \<or> is_dict data)) \<and>
    \<not> (\<exists>field. (name, field) \<in> set (get_model_fields model) \<and> \<not> getattr_primary_key field) \<longrightarrow>
      get_input_fields_for_model conv conv_m2m model only_fields exclude_fields
        optional_fields required_fields many_to_many_extras foreign_key_extras =
      Inl (GraphQLError (missing_field_message name (model_str model)))) \<and>
   (get_input_fields_for_model conv conv_m2m model only_fields exclude_fields
      optional_fields required_fields many_to_many_extras foreign_key_extras = Inr fields \<and>
    (name', ex') \<in> set (or_empty many_to_many_extras) \<and> (op', data') \<in> set ex' \<and>
    op' \<noteq> ''exact'' \<longrightarrow>
      name' @ ''_'' @ op' \<in> fst ` set fields \<and>
      (\<exists>field. (name', field) \<in> set (get_model_fields model) \<and>
         \<not> getattr_primary_key field)) \<and>
   ((\<forall>n e. (n, e) \<in> set (or_empty many_to_many_extras) \<longrightarrow>
       (\<exists>field. (n, field) \<in> set (get_model_fields model) \<and> \<not> getattr_primary_key field \<and>
          \<not> is_skipped only_fields exclude_fields n) \<and>
       (\<forall>op data. (op, data) \<in> set e \<longrightarrow> is_bool data \<or> is_dict data)) \<longrightarrow>
      (\<exists>fields'. get_input_fields_for_model conv conv_m2m model only_fields exclude_fields
         optional_fields required_fields many_to_many_extras foreign_key_extras =
         Inr fields'))"
proof -
  let ?B = "convert_model_fields conv only_fields exclude_fields optional_fields
      required_fields (or_empty many_to_many_extras) (or_empty foreign_key_extras)
      (get_model_fields model) ([], Map.empty)"
  let ?run = "get_input_fields_for_model conv conv_m2m model only_fields exclude_fields
      optional_fields required_fields many_to_many_extras foreign_key_extras"
  have run: "?run = add_many_to_many_extras conv_m2m (model_str model) (snd ?B)
      (or_empty many_to_many_extras) (fst ?B)"
    by (rule get_input_fields_for_model_unfold)
  have lookup: "dom (snd ?B) =
      {name. \<exists>field. (name, field) \<in> set (get_model_fields model) \<and>
         \<not> getattr_primary_key field}"
    by (rule base_lookup)
  have kept: "fst ` set (fst ?B) =
      {name. \<exists>field. (name, field) \<in> set (get_model_fields model) \<and>
         \<not> getattr_primary_key field \<and> \<not> is_skipped only_fields exclude_fields name}"
    by (rule base_keys)
  have fine: "n \<in> dom (snd ?B) \<and> n \<in> fst ` set (fst ?B)"
    if "\<exists>field. (n, field) \<in> set (get_model_fields model) \<and> \<not> getattr_primary_key field \<and>
          \<not> is_skipped only_fields exclude_fields n" for n
    using that unfolding lookup kept by blast
  have missing: "snd ?B name = None"
    if "\<not> (\<exists>field. (name, field) \<in> set (get_model_fields model) \<and>
          \<not> getattr_primary_key field)"
  proof -
    from that have "name \<notin> dom (snd ?B)" unfolding lookup by blast
    then show ?thesis by blast
  qed
  have part1: "\<exists>e. ?run = Inl e"
    if "(name, ex) \<in> set (or_empty many_to_many_extras) \<and>
        \<not> (\<exists>field. (name, field) \<in> set (get_model_fields model) \<and>
          \<not> getattr_primary_key field)"
    unfolding run using that missing
    by (intro add_many_to_many_extras_missing [of name ex]) blast+
  have part2: "?run = Inl (GraphQLError (missing_field_message name (model_str model)))"
    if h: "or_empty many_to_many_extras = pre @ (name, ex) # post \<and>
      (\<forall>n e. (n, e) \<in> set pre \<longrightarrow>
         (\<exists>field. (n, field) \<in> set (get_model_fields model) \<and> \<not> getattr_primary_key field \<and>
            \<not> is_skipped only_fields exclude_fields n) \<and>
         (\<forall>op data. (op, data) \<in> set e \<longrightarrow> is_bool data \<or> is_dict data)) \<and>
      \<not> (\<exists>field. (name, field) \<in> set (get_model_fields model) \<and>
         \<not> getattr_primary_key field)"
  proof -
    from h fine have pre: "\<forall>n e. (n, e) \<in> set pre \<longrightarrow>
        n \<in> dom (snd ?B) \<and> n \<in> fst ` set (fst ?B) \<and>
        (\<forall>op data. (op, data) \<in> set e \<longrightarrow> is_bool data \<or> is_dict data)"
      by blast
    from h missing have none: "snd ?B name = None" by blast
    from h have split: "or_empty many_to_many_extras = pre @ (name, ex) # post" by blast
    have "add_many_to_many_extras conv_m2m (model_str model) (snd ?B)
        (pre @ (name, ex) # post) (fst ?B) =
        Inl (GraphQLError (missing_field_message name (model_str model)))"
      by (rule add_many_to_many_extras_first_missing [OF pre none])
    then show ?thesis
      unfolding run by (simp only: split)
  qed
  have part3: "name' @ ''_'' @ op' \<in> fst ` set fields \<and>
      (\<exists>field. (name', field) \<in> set (get_model_fields model) \<and> \<not> getattr_primary_key field)"
    if h: "?run = Inr fields \<and> (name', ex') \<in> set (or_empty many_to_many_extras) \<and>
      (op', data') \<in> set ex' \<and> op' \<noteq> ''exact''"
  proof -
    from h have "add_many_to_many_extras conv_m2m (model_str model) (snd ?B)
        (or_empty many_to_many_extras) (fst ?B) = Inr fields"
      using run by simp
    from add_many_to_many_extras_keys [OF this] have
      keys: "fst ` set fields = fst ` set (fst ?B) \<union>
        {name @ ''_'' @ op | name ex op data.
          (name, ex) \<in> set (or_empty many_to_many_extras) \<and> (op, data) \<in> set ex \<and>
          op \<noteq> ''exact''}" and
      known: "\<forall>name ex. (name, ex) \<in> set (or_empty many_to_many_extras) \<longrightarrow>
        name \<in> dom (snd ?B)"
      by blast+
    from h have "name' @ ''_'' @ op' \<in> {name @ ''_'' @ op | name ex op data.
          (name, ex) \<in> set (or_empty many_to_many_extras) \<and> (op, data) \<in> set ex \<and>
          op \<noteq> ''exact''}"
      by blast
    then have "name' @ ''_'' @ op' \<in> fst ` set fields" unfolding keys by blast
    moreover from h known have "name' \<in> dom (snd ?B)" by blast
    then have "\<exists>field. (name', field) \<in> set (get_model_fields model) \<and>
        \<not> getattr_primary_key field"
      unfolding lookup by blast
    ultimately show ?thesis by blast
  qed
  have part4: "\<exists>fields'. ?run = Inr fields'"
    if h: "\<forall>n e. (n, e) \<in> set (or_empty many_to_many_extras) \<longrightarrow>
       (\<exists>field. (n, field) \<in> set (get_model_fields model) \<and> \<not> getattr_primary_key field \<and>
          \<not> is_skipped only_fields exclude_fields n) \<and>
       (\<forall>op data. (op, data) \<in> set e \<longrightarrow> is_bool data \<or> is_dict data)"
  proof -
    from h fine have "\<forall>n e. (n, e) \<in> set (or_empty many_to_many_extras) \<longrightarrow>
        n \<in> dom (snd ?B) \<and> n \<in> fst ` set (fst ?B) \<and>
        (\<forall>op data. (op, data) \<in> set e \<longrightarrow> is_bool data \<or> is_dict data)"
      by blast
    from add_many_to_many_extras_returns [OF this] show ?thesis
      unfolding run .
  qed
  from part1 part2 part3 part4 show ?thesis by blast
qed

theorem many_to_many_extras_outcome_witness:
  "get_input_fields_for_model class_converter list_m2m_converter
     (DjangoModel ''Pet''
        [(''id'', DjangoField ''AutoField'' (Some True)),
         (''tags'', DjangoField ''ManyToManyField'' (Some False))])
     [] [] [] []
     (Some [(''tags'', [(''exact'', PBool True), (''add'', PBool True)]),
            (''nope'', [(''add'', PBool True)])]) None =
     Inl (GraphQLError ''Error adding extras for nope in model fPet. Field nope does not exist.'') \<and>
   get_input_fields_for_model class_converter list_m2m_converter
     (DjangoModel ''Pet''
        [(''id'', DjangoField ''AutoField'' (Some True)),
         (''tags'', DjangoField ''ManyToManyField'' (Some False))])
     [] [] [] []
     (Some [(''tags'', [(''exact'', PBool True), (''add'', PBool True)])]) None =
     Inr [(''tags'', Some ''ManyToManyField''),
          (''tags_add'', Some ''List of ManyToManyField'')] \<and>
   ''tags'' @ ''_'' @ ''add'' \<in>
     fst ` set [(''tags'', Some ''ManyToManyField''),
                (''tags_add'', Some ''List of ManyToManyField'')]"
proof -
  let ?model = "DjangoModel ''Pet''
        [(''id'', DjangoField ''AutoField'' (Some True)),
         (''tags'', DjangoField ''ManyToManyField'' (Some False))]"
  let ?tags = "(''tags'', [(''exact'', PBool True), (''add'', PBool True)])"
  let ?nope = "[(''add'', PBool True)]"
  have split: "or_empty (Some [?tags, (''nope'', ?nope)]) = [?tags] @ (''nope'', ?nope) # []"
    by (simp add: or_empty_def)
  have pre: "\<forall>n e. (n, e) \<in> set [?tags] \<longrightarrow>
       (\<exists>field. (n, field) \<in> set (get_model_fields ?model) \<and> \<not> getattr_primary_key field \<and>
          \<not> is_skipped [] [] n) \<and>
       (\<forall>op data. (op, data) \<in> set e \<longrightarrow> is_bool data \<or> is_dict data)"
    by (auto simp: getattr_primary_key_def is_skipped_def endswith_plus_def)
  have gone: "\<not> (\<exists>field. (''nope'', field) \<in> set (get_model_fields ?model) \<and>
      \<not> getattr_primary_key field)"
    by simp
  have all: "\<forall>n e. (n, e) \<in> set (or_empty (Some [?tags])) \<longrightarrow>
       (\<exists>field. (n, field) \<in> set (get_model_fields ?model) \<and> \<not> getattr_primary_key field \<and>
          \<not> is_skipped [] [] n) \<and>
       (\<forall>op data. (op, data) \<in> set e \<longrightarrow> is_bool data \<or> is_dict data)"
    using pre by (simp add: or_empty_def)
  have run: "get_input_fields_for_model class_converter list_m2m_converter ?model
      [] [] [] [] (Some [?tags]) None =
      Inr [(''tags'', Some ''ManyToManyField''),
           (''tags_add'', Some ''List of ManyToManyField'')]"
    by (simp add: builder_simps)
  have declared: "?tags \<in> set (or_empty (Some [?tags])) \<and>
      (''add'', PBool True) \<in> set (snd ?tags) \<and> ''add'' \<noteq> ''exact''"
    by (simp add: or_empty_def)
  note fails = many_to_many_extras_outcome [of "''nope''" ?nope "Some [?tags, (''nope'', ?nope)]"
      ?model class_converter list_m2m_converter "[]" "[]" "[]" "[]" None "[?tags]" "[]",
      THEN conjunct2, THEN conjunct1, rule_format, OF conjI [OF split conjI [OF pre gone]]]
  note adds = many_to_many_extras_outcome [of _ _ "Some [?tags]"
      ?model class_converter list_m2m_converter "[]" "[]" "[]" "[]" None _ _
      "[(''tags'', Some ''ManyToManyField''), (''tags_add'', Some ''List of ManyToManyField'')]"
      "''tags''" "snd ?tags" "''add''" "PBool True",
      THEN conjunct2, THEN conjunct2, THEN conjunct1, rule_format]
  show ?thesis
    using fails adds run declared all by (simp add: missing_field_message_def)
qed

text \<open>
  C5 as stated fails: the primary key "id" is a field of the model, but the builder
  leaves it out of its lookup, so an entry of \<^verbatim>\<open>many_to_many_extras\<close> for "id" adds no
  key and the call fails with the schema error.
\<close>

theorem extras_for_primary_key_fail:
  "(''id'', DjangoField ''AutoField'' (Some True)) \<in> set (get_model_fields
     (DjangoModel ''Pet''
        [(''id'', DjangoField ''AutoField'' (Some True)),
         (''tags'', DjangoField ''ManyToManyField'' (Some False))])) \<and>
   get_input_fields_for_model class_converter list_m2m_converter
     (DjangoModel ''Pet''
        [(''id'', DjangoField ''AutoField'' (Some True)),
         (''tags'', DjangoField ''ManyToManyField'' (Some False))])
     [] [] [] [] (Some [(''id'', [(''add'', PBool True)])]) None =
     Inl (GraphQLError ''Error adding extras for id in model fPet. Field id does not exist.'')"
  by (simp add: builder_simps)

text \<open>
  C8. For a reflected field that is not the primary key and is not skipped, the first
  loop calls the converter with \<^verbatim>\<open>required\<close> set to \<^verbatim>\<open>False\<close> if the name is in
  \<^verbatim>\<open>optional_fields\<close>, else to \<^verbatim>\<open>True\<close> if it is in \<^verbatim>\<open>required_fields\<close>, else to \<^verbatim>\<open>None\<close>,
  and stores what the converter returns under the field's name; a name in both lists
  gets \<^verbatim>\<open>False\<close>. That value is still under the name in the mapping that
  \<^verbatim>\<open>get_input_fields_for_model\<close> returns, unless the name is also the key of an extra
  operation. (Field names are distinct.)
\<close>

theorem required_tri_state:
  assumes "distinct (map fst (get_model_fields model))"
    and "(name, field) \<in> set (get_model_fields model)"
    and "\<not> getattr_primary_key field"
    and "\<not> is_skipped only_fields exclude_fields name"
  shows "map_of (fst (convert_model_fields conv only_fields exclude_fields optional_fields
        required_fields (or_empty many_to_many_extras) (or_empty foreign_key_extras)
        (get_model_fields model) ([], Map.empty))) name =
      Some (conv field
        (if name \<in> set optional_fields then Some False
         else if name \<in> set required_fields then Some True
         else None)
        (get_exact (or_empty many_to_many_extras) name)
        (get_fk (or_empty foreign_key_extras) name)) \<and>
    (get_input_fields_for_model conv conv_m2m model only_fields exclude_fields
        optional_fields required_fields many_to_many_extras foreign_key_extras = Inr fields \<and>
     (\<forall>n ex op data. (n, ex) \<in> set (or_empty many_to_many_extras) \<and> (op, data) \<in> set ex \<and>
        op \<noteq> ''exact'' \<longrightarrow> name \<noteq> n @ ''_'' @ op) \<longrightarrow>
       map_of fields name =
         Some (conv field
           (if name \<in> set optional_fields then Some False
            else if name \<in> set required_fields then Some True
            else None)
           (get_exact (or_empty many_to_many_extras) name)
           (get_fk (or_empty foreign_key_extras) name))) \<and>
    (name \<in> set optional_fields \<and> name \<in> set required_fields \<longrightarrow>
       map_of (fst (convert_model_fields conv only_fields exclude_fields optional_fields
         required_fields (or_empty many_to_many_extras) (or_empty foreign_key_extras)
         (get_model_fields model) ([], Map.empty))) name =
       Some (conv field (Some False) (get_exact (or_empty many_to_many_extras) name)
         (get_fk (or_empty foreign_key_extras) name)))"
proof -
  let ?B = "convert_model_fields conv only_fields exclude_fields optional_fields
      required_fields (or_empty many_to_many_extras) (or_empty foreign_key_extras)
      (get_model_fields model) ([], Map.empty)"
  let ?v = "conv field
        (if name \<in> set optional_fields then Some False
         else if name \<in> set required_fields then Some True
         else None)
        (get_exact (or_empty many_to_many_extras) name)
        (get_fk (or_empty foreign_key_extras) name)"
  have base: "map_of (fst ?B) name = Some ?v"
    by (rule convert_model_fields_value [OF assms])
  have final: "map_of fields name = Some ?v"
    if h: "get_input_fields_for_model conv conv_m2m model only_fields exclude_fields
        optional_fields required_fields many_to_many_extras foreign_key_extras = Inr fields \<and>
      (\<forall>n ex op data. (n, ex) \<in> set (or_empty many_to_many_extras) \<and> (op, data) \<in> set ex \<and>
        op \<noteq> ''exact'' \<longrightarrow> name \<noteq> n @ ''_'' @ op)"
  proof -
    from h have run: "add_many_to_many_extras conv_m2m (model_str model) (snd ?B)
        (or_empty many_to_many_extras) (fst ?B) = Inr fields"
      by (simp add: get_input_fields_for_model_unfold)
    from h have "name \<notin> {n @ ''_'' @ op | n ex op data.
        (n, ex) \<in> set (or_empty many_to_many_extras) \<and> (op, data) \<in> set ex \<and> op \<noteq> ''exact''}"
      by blast
    with add_many_to_many_extras_keys [OF run] have "map_of fields name = map_of (fst ?B) name"
      by blast
    with base show ?thesis by simp
  qed
  have both: "map_of (fst ?B) name =
      Some (conv field (Some False) (get_exact (or_empty many_to_many_extras) name)
        (get_fk (or_empty foreign_key_extras) name))"
    if "name \<in> set optional_fields \<and> name \<in> set required_fields"
    using base that by simp
  from base final both show ?thesis by blast
qed

theorem required_tri_state_witness:
  "get_input_fields_for_model required_converter nothing_m2m_converter
     (DjangoModel ''Pet''
        [(''id'', DjangoField ''AutoField'' (Some True)),
         (''a'', DjangoField ''CharField'' (Some False)),
         (''b'', DjangoField ''CharField'' (Some False)),
         (''c'', DjangoField ''ManyToOneRel'' None)])
     [] [] [''a''] [''a'', ''b''] None None =
     Inr [(''a'', Some (Some False)), (''b'', Some (Some True)), (''c'', Some None)] \<and>
   ''a'' \<in> set [''a''] \<and> ''a'' \<in> set [''a'', ''b''] \<and>
   map_of [(''a'', Some (Some False)), (''b'', Some (Some True)), (''c'', Some None)] ''a'' =
     Some (required_converter (DjangoField ''CharField'' (Some False)) (Some False)
       (get_exact (or_empty None) ''a'') (get_fk (or_empty None) ''a''))"
proof -
  let ?model = "DjangoModel ''Pet''
        [(''id'', DjangoField ''AutoField'' (Some True)),
         (''a'', DjangoField ''CharField'' (Some False)),
         (''b'', DjangoField ''CharField'' (Some False)),
         (''c'', DjangoField ''ManyToOneRel'' None)]"
  have run: "get_input_fields_for_model required_converter nothing_m2m_converter ?model
      [] [] [''a''] [''a'', ''b''] None None =
      Inr [(''a'', Some (Some False)), (''b'', Some (Some True)), (''c'', Some None)]"
    by (simp add: builder_simps)
  have names: "distinct (map fst (get_model_fields ?model))"
    by simp
  have mem: "(''a'', DjangoField ''CharField'' (Some False)) \<in> set (get_model_fields ?model)"
    by simp
  have pk: "\<not> getattr_primary_key (DjangoField ''CharField'' (Some False))"
    by (simp add: getattr_primary_key_def)
  have kept: "\<not> is_skipped [] [] ''a''"
    by (simp add: is_skipped_def endswith_plus_def)
  have free: "\<forall>n ex op data. (n, ex) \<in> set (or_empty None) \<and> (op, data) \<in> set ex \<and>
      op \<noteq> ''exact'' \<longrightarrow> ''a'' \<noteq> n @ ''_'' @ op"
    by (simp add: or_empty_def)
  note final = required_tri_state [OF names mem pk kept,
      of required_converter "[''a'']" "[''a'', ''b'']" None None nothing_m2m_converter
        "[(''a'', Some (Some False)), (''b'', Some (Some True)), (''c'', Some None)]",
      THEN conjunct2, THEN conjunct1, rule_format, OF conjI [OF run free]]
  show ?thesis
    using run final by simp
qed

section \<open>The two builders compared\<close>

lemma add_extra_operations_all_optional_eq:
  "add_extra_operations_all_optional conv_m2m name field ex fields =
   add_extra_operations conv_m2m name field ex fields"
proof (induction ex arbitrary: fields)
  case Nil
  show ?case by simp
next
  case (Cons p ex)
  obtain op data where p: "p = (op, data)" by (cases p)
  show ?case
    unfolding p by (simp add: Cons.IH Let_def split: option.splits sum.splits)
qed

lemma add_many_to_many_extras_all_optional_eq:
  "add_many_to_many_extras_all_optional conv_m2m model_repr fields_lookup exs fields =
   add_many_to_many_extras conv_m2m model_repr fields_lookup exs fields"
proof (induction exs arbitrary: fields)
  case Nil
  show ?case by simp
next
  case (Cons p exs)
  obtain name ex where p: "p = (name, ex)" by (cases p)
  show ?case
    unfolding p
    by (simp add: Cons.IH add_extra_operations_all_optional_eq split: option.splits sum.splits)
qed

lemma convert_model_fields_all_optional_eq:
  "\<forall>name field. (name, field) \<in> set mf \<longrightarrow> name \<in> set optional_fields \<Longrightarrow>
   convert_model_fields_all_optional conv only_fields exclude_fields m2m fk mf state =
   convert_model_fields conv only_fields exclude_fields optional_fields required_fields
     m2m fk mf state"
proof (induction mf arbitrary: state)
  case Nil
  show ?case by simp
next
  case (Cons p mf)
  obtain name field where p: "p = (name, field)" by (cases p)
  obtain fields fields_lookup where state: "state = (fields, fields_lookup)" by (cases state)
  from Cons.prems p have opt: "name \<in> set optional_fields" by simp
  from Cons.prems have rest: "\<forall>name field. (name, field) \<in> set mf \<longrightarrow> name \<in> set optional_fields"
    by simp
  show ?case
    unfolding p state using opt by (simp add: Cons.IH [OF rest] Let_def)
qed

text \<open>
  C9. \<^verbatim>\<open>get_all_optional_input_fields_for_model\<close> returns what
  \<^verbatim>\<open>get_input_fields_for_model\<close> returns for the same model, only/exclude lists and extras
  when every field name is in \<^verbatim>\<open>optional_fields\<close>, that is when every field is forced to
  \<^verbatim>\<open>required = False\<close>, whatever \<^verbatim>\<open>required_fields\<close> holds.
\<close>

theorem all_optional_builder_refines:
  assumes "\<forall>name field. (name, field) \<in> set (get_model_fields model) \<longrightarrow>
      name \<in> set optional_fields"
  shows "get_all_optional_input_fields_for_model conv conv_m2m model only_fields exclude_fields
      many_to_many_extras foreign_key_extras =
    get_input_fields_for_model conv conv_m2m model only_fields exclude_fields
      optional_fields required_fields many_to_many_extras foreign_key_extras"
  by (simp add: get_all_optional_input_fields_for_model_def get_input_fields_for_model_def
      Let_def add_many_to_many_extras_all_optional_eq
      convert_model_fields_all_optional_eq [OF assms, where required_fields = required_fields])

theorem all_optional_builder_refines_witness:
  "get_all_optional_input_fields_for_model required_converter nothing_m2m_converter
     (DjangoModel ''Pet''
        [(''id'', DjangoField ''AutoField'' (Some True)),
         (''a'', DjangoField ''CharField'' (Some False)),
         (''tags'', DjangoField ''ManyToManyField'' (Some False))])
     [] [] (Some [(''tags'', [(''add'', PBool True)])]) None =
   get_input_fields_for_model required_converter nothing_m2m_converter
     (DjangoModel ''Pet''
        [(''id'', DjangoField ''AutoField'' (Some True)),
         (''a'', DjangoField ''CharField'' (Some False)),
         (''tags'', DjangoField ''ManyToManyField'' (Some False))])
     [] [] [''id'', ''a'', ''tags''] [''a''] (Some [(''tags'', [(''add'', PBool True)])]) None \<and>
   get_input_fields_for_model required_converter nothing_m2m_converter
     (DjangoModel ''Pet''
        [(''id'', DjangoField ''AutoField'' (Some True)),
         (''a'', DjangoField ''CharField'' (Some False)),
         (''tags'', DjangoField ''ManyToManyField'' (Some False))])
     [] [] [''id'', ''a'', ''tags''] [''a''] (Some [(''tags'', [(''add'', PBool True)])]) None =
     Inr [(''a'', Some (Some False)), (''tags'', Some (Some False)),
          (''tags_add'', Some (Some False))]"
proof -
  let ?model = "DjangoModel ''Pet''
        [(''id'', DjangoField ''AutoField'' (Some True)),
         (''a'', DjangoField ''CharField'' (Some False)),
         (''tags'', DjangoField ''ManyToManyField'' (Some False))]"
  have names: "\<forall>name field. (name, field) \<in> set (get_model_fields ?model) \<longrightarrow>
      name \<in> set [''id'', ''a'', ''tags'']"
    by auto
  have run: "get_input_fields_for_model required_converter nothing_m2m_converter ?model
      [] [] [''id'', ''a'', ''tags''] [''a''] (Some [(''tags'', [(''add'', PBool True)])]) None =
      Inr [(''a'', Some (Some False)), (''tags'', Some (Some False)),
           (''tags_add'', Some (Some False))]"
    by (simp add: builder_simps)
  show ?thesis
    using run
      all_optional_builder_refines [OF names, of required_converter nothing_m2m_converter
        "[]" "[]" "Some [(''tags'', [(''add'', PBool True)])]" None "[''a'']"]
    by simp
qed

end
